theory Spec2Isabelle
  imports Main "HOL-Library.Word" "HOL-Library.Sublist"
begin

section \<open>Resumable upgrade download: the model of \<open>psiphon/upgradeDownload.go\<close>\<close>

text \<open>
  \<open>DownloadUpgrade\<close> is a single sequential Go function whose whole behaviour is a
  series of calls on the filesystem, the HTTP client and the notice emitter. The model
  threads a \<open>world\<close> (the filesystem, and the log of every call made, in order) through
  the function, and takes the outcome of each call that the function cannot decide
  itself (does the client construct, does the open fail, what does the server answer,
  does a write come up short) from an \<open>env\<close> record. Every \<open>return\<close> of the source
  is a branch of the model, and the two \<open>defer\<close>red closes are run on the branches
  the source runs them on.

  \<open>Config\<close>, \<open>Tunnel\<close>, \<open>MakeTunneledHttpClient\<close>, \<open>DOWNLOAD_UPGRADE_TIMEOUT\<close>,
  \<open>ContextError\<close>, \<open>NoticeInfo\<close>, \<open>NoticeClientUpgradeDownloaded\<close> and
  \<open>NewSyncFileWriter\<close> are declared elsewhere in the package, and \<open>os\<close>, \<open>io\<close>,
  \<open>fmt\<close> and \<open>net/http\<close> are Go's library. Of \<open>Config\<close> the model has the two
  fields the function reads. The tunnel and the timeout only reach the constructor of the
  client, whose one observable result here is whether it fails. The notices are entries of
  the log. The library calls have the behaviour their documentation gives for the
  arguments the function passes.
\<close>

subsection \<open>Data\<close>

type_synonym byte = "8 word"

type_synonym filesystem = "string \<rightharpoonup> byte list"

text \<open>
  Go \<open>error\<close> values. \<open>External\<close> is an error handed back by a collaborator (the
  operating system, \<open>net/http\<close>, the tunnel); \<open>UnexpectedStatus\<close> is line 87's
  \<open>fmt.Errorf("unexpected response status code: %d", ...)\<close>; \<open>ErrShortWrite\<close> is
  \<open>io.ErrShortWrite\<close>; \<open>ErrClosed\<close> is what a second \<open>Close\<close> of an \<open>os.File\<close>
  returns; \<open>ContextError\<close> is the wrapper applied at every error return.
\<close>

datatype go_error =
    External string
  | UnexpectedStatus int
  | ErrShortWrite
  | ErrClosed
  | ContextError go_error

datatype open_flag = O_RDONLY | O_WRONLY | O_RDWR | O_APPEND | O_CREATE | O_EXCL | O_SYNC | O_TRUNC

record config =
  UpgradeDownloadFilename :: string
  UpgradeDownloadUrl :: string

record request =
  Method :: string
  URL :: string
  Header :: "(string \<times> string) list"

text \<open>
  A response body is what successive \<open>Read\<close> calls deliver: a sequence of chunks, then
  either \<open>io.EOF\<close> (\<open>read_err = None\<close>) or an error.
\<close>

record body =
  chunks :: "byte list list"
  read_err :: "go_error option"

record response =
  StatusCode :: int
  Body :: body

text \<open>
  The outcome of one \<open>Write\<close> on the writer that \<open>NewSyncFileWriter\<close> returns: all of
  the buffer written and no error, or \<open>n\<close> bytes written (at most the buffer) together
  with an optional error.
\<close>

datatype write_result = WriteAll | WriteSome nat "go_error option"

record env =
  MakeTunneledHttpClient_err :: "go_error option"
  OpenFile_err :: "go_error option"
  Stat_err :: "go_error option"
  NewRequest_err :: "go_error option"
  Do_result :: "go_error + response"
  Write_results :: "write_result list"
  Close_err :: "go_error option"
  Rename_err :: "go_error option"

text \<open>Every call the function makes, with its arguments and, where the log needs it, its result.\<close>

datatype action =
    os_Stat string
  | MakeTunneledHttpClient "go_error option"
  | os_OpenFile string "open_flag list" nat "go_error option"
  | file_Stat "go_error option"
  | http_NewRequest string string "go_error option"
  | httpClient_Do request
  | Body_Read "byte list"
  | Body_Close
  | file_Write string "byte list"
  | file_Close "go_error option"
  | os_Rename string string "go_error option"
  | NoticeInfo string "nat list"
  | NoticeClientUpgradeDownloaded string

record world =
  files :: filesystem
  trace :: "action list"

subsection \<open>The filesystem\<close>

definition open_effect :: "open_flag list \<Rightarrow> string \<Rightarrow> filesystem \<Rightarrow> filesystem" where
  "open_effect flags p fs =
     (case fs p of
        None \<Rightarrow> if O_CREATE \<in> set flags then fs(p \<mapsto> []) else fs
      | Some c \<Rightarrow> if O_TRUNC \<in> set flags then fs(p \<mapsto> []) else fs)"

definition append_file :: "string \<Rightarrow> byte list \<Rightarrow> filesystem \<Rightarrow> filesystem" where
  "append_file p bs fs = (case fs p of None \<Rightarrow> fs | Some c \<Rightarrow> fs(p \<mapsto> c @ bs))"

definition rename_file :: "string \<Rightarrow> string \<Rightarrow> filesystem \<Rightarrow> filesystem" where
  "rename_file src dst fs = (case fs src of None \<Rightarrow> fs | Some c \<Rightarrow> (fs(src := None))(dst \<mapsto> c))"

text \<open>What a call does to the filesystem. A call that failed, and every call that is not
  an open, a write or a rename, leaves it as it was.\<close>

fun fs_effect :: "action \<Rightarrow> filesystem \<Rightarrow> filesystem" where
  "fs_effect (os_OpenFile p flags perm None) fs = open_effect flags p fs"
| "fs_effect (file_Write p bs) fs = append_file p bs fs"
| "fs_effect (os_Rename src dst None) fs = rename_file src dst fs"
| "fs_effect _ fs = fs"

definition perform :: "action \<Rightarrow> world \<Rightarrow> world" where
  "perform a w = \<lparr>files = fs_effect a (files w), trace = trace w @ [a]\<rparr>"

definition replay :: "filesystem \<Rightarrow> action list \<Rightarrow> filesystem" where
  "replay fs as = foldl (\<lambda>f a. fs_effect a f) fs as"

definition file_size :: "filesystem \<Rightarrow> string \<Rightarrow> nat" where
  "file_size fs p = (case fs p of None \<Rightarrow> 0 | Some c \<Rightarrow> length c)"

text \<open>The filesystem after each call of a log, from the filesystem before the first:
  what an observer of the disk can see while the function runs.\<close>

fun states :: "filesystem \<Rightarrow> action list \<Rightarrow> filesystem list" where
  "states fs [] = [fs]"
| "states fs (a # as) = fs # states (fs_effect a fs) as"

text \<open>The bytes a log writes, in order.\<close>

fun written_bytes :: "action list \<Rightarrow> byte list" where
  "written_bytes [] = []"
| "written_bytes (file_Write p bs # as) = bs @ written_bytes as"
| "written_bytes (a # as) = written_bytes as"

text \<open>The notices of a log, in order.\<close>

fun is_notice :: "action \<Rightarrow> bool" where
  "is_notice (NoticeInfo f args) = True"
| "is_notice (NoticeClientUpgradeDownloaded p) = True"
| "is_notice _ = False"

definition notices :: "action list \<Rightarrow> action list" where
  "notices as = filter is_notice as"

text \<open>The calls \<open>io.Copy\<close> makes: reads of the body and writes to the file.\<close>

fun is_copy_call :: "string \<Rightarrow> action \<Rightarrow> bool" where
  "is_copy_call p (Body_Read c) = True"
| "is_copy_call p (file_Write q c) = (q = p)"
| "is_copy_call p _ = False"

definition start :: "filesystem \<Rightarrow> world" where
  "start fs = \<lparr>files = fs, trace = []\<rparr>"

text \<open>The bytes of a file, none when there is no file.\<close>

definition contents :: "filesystem \<Rightarrow> string \<Rightarrow> byte list" where
  "contents fs p = (case fs p of None \<Rightarrow> [] | Some c \<Rightarrow> c)"

subsection \<open>Formatting\<close>

definition digit_char :: "nat \<Rightarrow> char" where
  "digit_char d = ''0123456789'' ! d"

text \<open>\<open>%d\<close> of a non-negative integer.\<close>

function show_nat :: "nat \<Rightarrow> string" where
  "show_nat n = (if n < 10 then [digit_char n] else show_nat (n div 10) @ [digit_char (n mod 10)])"
  by pat_completeness auto
termination
  by (relation "measure id") auto

declare show_nat.simps [simp del]

text \<open>Line 58: \<open>fmt.Sprintf("%s.%s.part", config.UpgradeDownloadFilename, clientUpgradeVersion)\<close>.\<close>

definition partialFilename :: "config \<Rightarrow> string \<Rightarrow> string" where
  "partialFilename config clientUpgradeVersion =
     UpgradeDownloadFilename config @ ''.'' @ clientUpgradeVersion @ ''.part''"

text \<open>Line 76: \<open>fmt.Sprintf("bytes=%d-", fileInfo.Size())\<close>.\<close>

definition range_header :: "nat \<Rightarrow> string" where
  "range_header n = ''bytes='' @ show_nat n @ ''-''"

text \<open>Lines 72 and 76: the \<open>GET\<close> request for the configured URL, with the one header
  \<open>Range: bytes=<size>-\<close>.\<close>

definition range_request :: "config \<Rightarrow> nat \<Rightarrow> request" where
  "range_request config n =
     \<lparr>Method = ''GET'', URL = UpgradeDownloadUrl config, Header = [(''Range'', range_header n)]\<rparr>"

definition StatusPartialContent :: int where
  "StatusPartialContent = 206"

definition StatusRequestedRangeNotSatisfiable :: int where
  "StatusRequestedRangeNotSatisfiable = 416"

definition downloaded_bytes_format :: string where
  "downloaded_bytes_format = ''client upgrade downloaded bytes: %d''"

text \<open>Line 61: \<open>os.O_CREATE|os.O_APPEND|os.O_WRONLY\<close>. The permission \<open>0600\<close> of that
  line is 384.\<close>

definition open_flags :: "open_flag list" where
  "open_flags = [O_CREATE, O_APPEND, O_WRONLY]"

subsection \<open>\<open>io.Copy\<close> into the sync file writer\<close>

text \<open>
  Modelled from the spec: \<open>NewSyncFileWriter\<close>, the writer line 94 wraps the file in, is
  not in \<open>upgradeDownload.go\<close>. The spec has the body streamed to disk chunk by chunk,
  each chunk appended to the Partial File. So one \<open>Write\<close> of the writer appends bytes of
  its buffer, from the front, to the file it was made for, and returns how many and an
  optional error; which of the outcomes it is comes from the environment.
\<close>

definition SyncFileWriter_Write ::
  "write_result \<Rightarrow> string \<Rightarrow> byte list \<Rightarrow> world \<Rightarrow> nat \<times> go_error option \<times> world" where
  "SyncFileWriter_Write wr p buf w =
     (let nw = (case wr of WriteAll \<Rightarrow> length buf | WriteSome n _ \<Rightarrow> min n (length buf));
          ew = (case wr of WriteAll \<Rightarrow> None | WriteSome _ e \<Rightarrow> e)
      in (nw, ew, perform (file_Write p (take nw buf)) w))"

text \<open>
  The loop of \<open>io.Copy\<close>: read a chunk; if it is not empty write it, add the bytes
  written to the count, stop on a write error or a short write; when the chunks are
  used up the last \<open>Read\<close> returns \<open>io.EOF\<close> (the copy succeeded) or the read error.
  A write result beyond the end of \<open>Write_results\<close> is a complete write.
\<close>

fun io_Copy ::
  "write_result list \<Rightarrow> string \<Rightarrow> byte list list \<Rightarrow> go_error option \<Rightarrow> nat \<Rightarrow> world
     \<Rightarrow> nat \<times> go_error option \<times> world" where
  "io_Copy wrs p [] rerr written w = (written, rerr, perform (Body_Read []) w)"
| "io_Copy wrs p (c # cs) rerr written w =
     (let w1 = perform (Body_Read c) w in
      if c = [] then io_Copy wrs p cs rerr written w1
      else
        case SyncFileWriter_Write (case wrs of [] \<Rightarrow> WriteAll | r # _ \<Rightarrow> r) p c w1 of
          (nw, ew, w2) \<Rightarrow>
            let written' = written + nw
            in if ew \<noteq> None then (written', ew, w2)
               else if nw \<noteq> length c then (written', Some ErrShortWrite, w2)
               else io_Copy (tl wrs) p cs rerr written' w2)"

subsection \<open>\<open>DownloadUpgrade\<close>\<close>

text \<open>Lines 94 to 115, with the file open and the response in hand. The boolean says
  whether line 103's \<open>file.Close()\<close> was reached.\<close>

definition copy_and_publish ::
  "config \<Rightarrow> string \<Rightarrow> env \<Rightarrow> response \<Rightarrow> world \<Rightarrow> go_error option \<times> bool \<times> world" where
  "copy_and_publish config partial env resp w =
     (case io_Copy (Write_results env) partial (chunks (Body resp)) (read_err (Body resp)) 0 w of
        (n, Some err, w1) \<Rightarrow> (Some (ContextError err), False, w1)
      | (n, None, w1) \<Rightarrow>
          let w2 = perform (NoticeInfo downloaded_bytes_format [n]) w1;
              w3 = perform (file_Close (Close_err env)) w2
          in (case Close_err env of
                Some err \<Rightarrow> (Some (ContextError err), True, w3)
              | None \<Rightarrow>
                  let w4 = perform (os_Rename partial (UpgradeDownloadFilename config) (Rename_err env)) w3
                  in (case Rename_err env of
                        Some err \<Rightarrow> (Some (ContextError err), True, w4)
                      | None \<Rightarrow>
                          (None, True,
                           perform (NoticeClientUpgradeDownloaded (UpgradeDownloadFilename config)) w4))))"

text \<open>Lines 67 to 92 and the deferred \<open>response.Body.Close()\<close>.\<close>

definition request_and_copy ::
  "config \<Rightarrow> string \<Rightarrow> env \<Rightarrow> world \<Rightarrow> go_error option \<times> bool \<times> world" where
  "request_and_copy config partial env w =
     (let w1 = perform (file_Stat (Stat_err env)) w in
      case Stat_err env of
        Some err \<Rightarrow> (Some (ContextError err), False, w1)
      | None \<Rightarrow>
          let sz = file_size (files w1) partial;
              w2 = perform (http_NewRequest ''GET'' (UpgradeDownloadUrl config) (NewRequest_err env)) w1
          in (case NewRequest_err env of
                Some err \<Rightarrow> (Some (ContextError err), False, w2)
              | None \<Rightarrow>
                  let req = range_request config sz;
                      w3 = perform (httpClient_Do req) w2
                  in (case Do_result env of
                        Inl err \<Rightarrow> (Some (ContextError err), False, w3)
                      | Inr resp \<Rightarrow>
                          if StatusCode resp \<noteq> StatusPartialContent \<and>
                             StatusCode resp \<noteq> StatusRequestedRangeNotSatisfiable
                          then (Some (ContextError (UnexpectedStatus (StatusCode resp))), False,
                                perform Body_Close w3)
                          else
                            (case copy_and_publish config partial env resp w3 of
                               (r, closed, w4) \<Rightarrow> (r, closed, perform Body_Close w4)))))"

definition DownloadUpgrade ::
  "config \<Rightarrow> string \<Rightarrow> env \<Rightarrow> world \<Rightarrow> go_error option \<times> world" where
  "DownloadUpgrade config clientUpgradeVersion env w =
     (let w1 = perform (os_Stat (UpgradeDownloadFilename config)) w in
      if files w1 (UpgradeDownloadFilename config) \<noteq> None
      then (None, perform (NoticeClientUpgradeDownloaded (UpgradeDownloadFilename config)) w1)
      else
        let w2 = perform (MakeTunneledHttpClient (MakeTunneledHttpClient_err env)) w1 in
        case MakeTunneledHttpClient_err env of
          Some err \<Rightarrow> (Some (ContextError err), w2)
        | None \<Rightarrow>
            let partial = partialFilename config clientUpgradeVersion;
                w3 = perform (os_OpenFile partial open_flags 384 (OpenFile_err env)) w2
            in (case OpenFile_err env of
                  Some err \<Rightarrow> (Some (ContextError err), w3)
                | None \<Rightarrow>
                    (case request_and_copy config partial env w3 of
                       (r, closed, w4) \<Rightarrow>
                         (r, perform (file_Close (if closed then Some ErrClosed else Close_err env)) w4))))"

text \<open>The six calls of lines 48 to 78 when none of them fails and there is no file at
  the final path, as the log records them.\<close>

definition calls_before_response :: "config \<Rightarrow> string \<Rightarrow> filesystem \<Rightarrow> action list" where
  "calls_before_response config v fs =
     [os_Stat (UpgradeDownloadFilename config), MakeTunneledHttpClient None,
      os_OpenFile (partialFilename config v) open_flags 384 None, file_Stat None,
      http_NewRequest ''GET'' (UpgradeDownloadUrl config) None,
      httpClient_Do (range_request config (file_size fs (partialFilename config v)))]"

text \<open>The first five of them: the calls before the request is sent.\<close>

definition calls_before_request :: "config \<Rightarrow> string \<Rightarrow> action list" where
  "calls_before_request config v =
     [os_Stat (UpgradeDownloadFilename config), MakeTunneledHttpClient None,
      os_OpenFile (partialFilename config v) open_flags 384 None, file_Stat None,
      http_NewRequest ''GET'' (UpgradeDownloadUrl config) None]"

subsection \<open>Example inputs\<close>

text \<open>A configuration, an environment in which every call succeeds and the server
  answers with a given response, and a response with a given status and body.\<close>

definition ex_config :: config where
  "ex_config = \<lparr>UpgradeDownloadFilename = ''up'', UpgradeDownloadUrl = ''url''\<rparr>"

definition ex_env :: "response \<Rightarrow> env" where
  "ex_env resp =
     \<lparr>MakeTunneledHttpClient_err = None, OpenFile_err = None, Stat_err = None,
      NewRequest_err = None, Do_result = Inr resp, Write_results = [],
      Close_err = None, Rename_err = None\<rparr>"

definition ex_response :: "int \<Rightarrow> byte list list \<Rightarrow> response" where
  "ex_response status cs = \<lparr>StatusCode = status, Body = \<lparr>chunks = cs, read_err = None\<rparr>\<rparr>"

text \<open>A filesystem with a Partial File of two bytes for version \<open>7\<close>, the response
  that delivers three more bytes in two chunks, and the log of the run that resumes with
  them, cut at the request, at the byte-count notice and at the rename.\<close>

definition ex_partial :: filesystem where
  "ex_partial = [''up.7.part'' \<mapsto> [1, 2]]"

definition ex_rest :: response where
  "ex_rest = ex_response 206 [[3], [4, 5]]"

definition ex_calls_before_request :: "action list" where
  "ex_calls_before_request =
     [os_Stat ''up'', MakeTunneledHttpClient None,
      os_OpenFile ''up.7.part'' [O_CREATE, O_APPEND, O_WRONLY] 384 None, file_Stat None,
      http_NewRequest ''GET'' ''url'' None]"

definition ex_request :: request where
  "ex_request = \<lparr>Method = ''GET'', URL = ''url'', Header = [(''Range'', ''bytes=2-'')]\<rparr>"

definition ex_copy_calls :: "action list" where
  "ex_copy_calls =
     [Body_Read [3], file_Write ''up.7.part'' [3], Body_Read [4, 5],
      file_Write ''up.7.part'' [4, 5], Body_Read []]"

definition ex_notice :: action where
  "ex_notice = NoticeInfo ''client upgrade downloaded bytes: %d'' [3]"

text \<open>An environment in which the connection is reset after one chunk of one byte.\<close>

definition ex_reset :: env where
  "ex_reset = ex_env \<lparr>StatusCode = 206, Body = \<lparr>chunks = [[3]], read_err = Some (External ''reset'')\<rparr>\<rparr>"


text \<open>A 416 response that carries a body of three bytes, and one with no body.\<close>

definition ex_416_with_body :: response where
  "ex_416_with_body = ex_response 416 [[9, 9, 9]]"

definition ex_416_empty :: response where
  "ex_416_empty = ex_response 416 []"

section \<open>The log and the filesystem\<close>

lemma files_perform [simp]: "files (perform a w) = fs_effect a (files w)"
  by (simp add: perform_def)

lemma trace_perform [simp]: "trace (perform a w) = trace w @ [a]"
  by (simp add: perform_def)

lemma files_start [simp]: "files (start fs) = fs"
  by (simp add: start_def)

lemma trace_start [simp]: "trace (start fs) = []"
  by (simp add: start_def)

lemma replay_Nil [simp]: "replay fs [] = fs"
  by (simp add: replay_def)

lemma replay_snoc [simp]: "replay fs (as @ [a]) = fs_effect a (replay fs as)"
  by (simp add: replay_def)

lemma replay_append: "replay fs (as @ bs) = replay (replay fs as) bs"
  by (simp add: replay_def)

lemma states_nth: "k \<le> length as \<Longrightarrow> states fs as ! k = replay fs (take k as)"
proof (induction as arbitrary: fs k)
  case Nil
  then show ?case by simp
next
  case (Cons a as)
  then show ?case by (cases k) (simp_all add: replay_def)
qed

lemma show_nat_digit: "n < 10 \<Longrightarrow> show_nat n = [digit_char n]"
  by (simp add: show_nat.simps)

lemma replay_Cons [simp]: "replay fs (a # as) = replay (fs_effect a fs) as"
  by (simp add: replay_def)

lemma states_ne: "states fs as \<noteq> []"
  by (cases as) simp_all

lemma last_states: "last (states fs as) = replay fs as"
  by (induction as arbitrary: fs) (simp_all add: replay_def states_ne)

lemma written_bytes_append: "written_bytes (as @ bs) = written_bytes as @ written_bytes bs"
  by (induction as rule: written_bytes.induct) simp_all

lemma append_file_append: "append_file p b2 (append_file p b1 fs) = append_file p (b1 @ b2) fs"
  by (auto simp: append_file_def split: option.splits)

lemma append_file_Nil [simp]: "append_file p [] fs = fs"
  by (auto simp: append_file_def split: option.splits)


lemma io_Copy_log:
  "io_Copy wrs p cs rerr written w = (n, e, w') \<Longrightarrow>
   \<exists>tr. trace w' = trace w @ tr \<and> (\<forall>a\<in>set tr. is_copy_call p a) \<and>
        files w' = append_file p (written_bytes tr) (files w) \<and>
        n = written + length (written_bytes tr) \<and>
        prefix (written_bytes tr) (concat cs) \<and>
        (e = None \<longrightarrow> written_bytes tr = concat cs) \<and>
        (e = None \<or> e = rerr \<or> e = Some ErrShortWrite \<or> (\<exists>k. WriteSome k e \<in> set wrs))"
proof (induction cs arbitrary: wrs written w)
  case Nil
  then show ?case by (intro exI[of _ "[Body_Read []]"]) auto
next
  case (Cons c cs)
  show ?case
  proof (cases "c = []")
    case True
    with Cons.prems have "io_Copy wrs p cs rerr written (perform (Body_Read c) w) = (n, e, w')"
      by simp
    from Cons.IH[OF this] obtain tr where tr: "trace w' = trace (perform (Body_Read c) w) @ tr"
      "\<forall>a\<in>set tr. is_copy_call p a" "files w' = append_file p (written_bytes tr) (files (perform (Body_Read c) w))"
      "n = written + length (written_bytes tr)" "prefix (written_bytes tr) (concat cs)"
      "e = None \<longrightarrow> written_bytes tr = concat cs"
      "e = None \<or> e = rerr \<or> e = Some ErrShortWrite \<or> (\<exists>k. WriteSome k e \<in> set wrs)" by blast
    show ?thesis
      using tr True by (intro exI[of _ "Body_Read c # tr"]) auto
  next
    case False
    define wr where "wr = (case wrs of [] \<Rightarrow> WriteAll | r # _ \<Rightarrow> r)"
    define nw where "nw = (case wr of WriteAll \<Rightarrow> length c | WriteSome k _ \<Rightarrow> min k (length c))"
    define ew where "ew = (case wr of WriteAll \<Rightarrow> None | WriteSome _ e \<Rightarrow> e)"
    define w2 where "w2 = perform (file_Write p (take nw c)) (perform (Body_Read c) w)"
    have step: "io_Copy wrs p (c # cs) rerr written w =
        (if ew \<noteq> None then (written + nw, ew, w2)
         else if nw \<noteq> length c then (written + nw, Some ErrShortWrite, w2)
         else io_Copy (tl wrs) p cs rerr (written + nw) w2)"
      using False by (simp add: wr_def nw_def ew_def w2_def Let_def SyncFileWriter_Write_def)
    have ew_src: "ew = None \<or> (\<exists>k. WriteSome k ew \<in> set wrs)"
      by (auto simp: ew_def wr_def split: list.splits write_result.splits)
    have nw_le: "nw \<le> length c"
      by (auto simp: nw_def split: write_result.splits)
    show ?thesis
    proof (cases "ew \<noteq> None \<or> nw \<noteq> length c")
      case True
      with step Cons.prems have r: "n = written + nw" "w' = w2"
        "e = (if ew \<noteq> None then ew else Some ErrShortWrite)"
        by (auto split: if_splits)
      show ?thesis
        using r ew_src nw_le
        by (intro exI[of _ "[Body_Read c, file_Write p (take nw c)]"])
           (auto simp: w2_def take_is_prefix prefix_prefix)
    next
      case stop: False
      with step Cons.prems have "io_Copy (tl wrs) p cs rerr (written + nw) w2 = (n, e, w')"
        by simp
      from Cons.IH[OF this] obtain tr where tr: "trace w' = trace w2 @ tr"
        "\<forall>a\<in>set tr. is_copy_call p a" "files w' = append_file p (written_bytes tr) (files w2)"
        "n = written + nw + length (written_bytes tr)" "prefix (written_bytes tr) (concat cs)"
        "e = None \<longrightarrow> written_bytes tr = concat cs"
        "e = None \<or> e = rerr \<or> e = Some ErrShortWrite \<or> (\<exists>k. WriteSome k e \<in> set (tl wrs))" by blast
      have tlsub: "\<And>x. x \<in> set (tl wrs) \<Longrightarrow> x \<in> set wrs"
        by (cases wrs) auto
      show ?thesis
        using tr stop tlsub
        by (intro exI[of _ "Body_Read c # file_Write p c # tr"])
           (auto simp: w2_def append_file_append)
    qed
  qed
qed


lemma open_effect_creates: "open_effect open_flags p fs = (case fs p of None \<Rightarrow> fs(p \<mapsto> []) | Some c \<Rightarrow> fs)"
  by (simp add: open_effect_def open_flags_def split: option.splits)

lemma copy_and_publish_cases:
  assumes "copy_and_publish config partial env resp w = (r, closed, w')"
  obtains
    (copy_failed) n e w1 where
      "io_Copy (Write_results env) partial (chunks (Body resp)) (read_err (Body resp)) 0 w = (n, Some e, w1)"
      "r = Some (ContextError e)" "\<not> closed" "w' = w1"
  | (close_failed) n w1 e where
      "io_Copy (Write_results env) partial (chunks (Body resp)) (read_err (Body resp)) 0 w = (n, None, w1)"
      "Close_err env = Some e" "r = Some (ContextError e)" "closed"
      "w' = perform (file_Close (Some e)) (perform (NoticeInfo downloaded_bytes_format [n]) w1)"
  | (rename_failed) n w1 e where
      "io_Copy (Write_results env) partial (chunks (Body resp)) (read_err (Body resp)) 0 w = (n, None, w1)"
      "Close_err env = None" "Rename_err env = Some e" "r = Some (ContextError e)" "closed"
      "w' = perform (os_Rename partial (UpgradeDownloadFilename config) (Some e))
             (perform (file_Close None) (perform (NoticeInfo downloaded_bytes_format [n]) w1))"
  | (published) n w1 where
      "io_Copy (Write_results env) partial (chunks (Body resp)) (read_err (Body resp)) 0 w = (n, None, w1)"
      "Close_err env = None" "Rename_err env = None" "r = None" "closed"
      "w' = perform (NoticeClientUpgradeDownloaded (UpgradeDownloadFilename config))
             (perform (os_Rename partial (UpgradeDownloadFilename config) None)
               (perform (file_Close None) (perform (NoticeInfo downloaded_bytes_format [n]) w1)))"
  using assms
  by (auto simp: copy_and_publish_def Let_def split: prod.splits option.splits)


lemma request_and_copy_cases:
  assumes "request_and_copy config partial env w = (r, closed, w')"
  obtains
    (stat_failed) e where
      "Stat_err env = Some e" "r = Some (ContextError e)" "\<not> closed"
      "w' = perform (file_Stat (Some e)) w"
  | (request_failed) e where
      "Stat_err env = None" "NewRequest_err env = Some e" "r = Some (ContextError e)" "\<not> closed"
      "w' = perform (http_NewRequest ''GET'' (UpgradeDownloadUrl config) (Some e)) (perform (file_Stat None) w)"
  | (transport_failed) e where
      "Stat_err env = None" "NewRequest_err env = None" "Do_result env = Inl e"
      "r = Some (ContextError e)" "\<not> closed"
      "w' = perform (httpClient_Do (range_request config (file_size (files w) partial)))
              (perform (http_NewRequest ''GET'' (UpgradeDownloadUrl config) None) (perform (file_Stat None) w))"
  | (bad_status) resp where
      "Stat_err env = None" "NewRequest_err env = None" "Do_result env = Inr resp"
      "StatusCode resp \<noteq> 206" "StatusCode resp \<noteq> 416"
      "r = Some (ContextError (UnexpectedStatus (StatusCode resp)))" "\<not> closed"
      "w' = perform Body_Close (perform (httpClient_Do (range_request config (file_size (files w) partial)))
              (perform (http_NewRequest ''GET'' (UpgradeDownloadUrl config) None) (perform (file_Stat None) w)))"
  | (copying) resp w4 where
      "Stat_err env = None" "NewRequest_err env = None" "Do_result env = Inr resp"
      "StatusCode resp = 206 \<or> StatusCode resp = 416"
      "copy_and_publish config partial env resp
         (perform (httpClient_Do (range_request config (file_size (files w) partial)))
              (perform (http_NewRequest ''GET'' (UpgradeDownloadUrl config) None) (perform (file_Stat None) w)))
        = (r, closed, w4)"
      "w' = perform Body_Close w4"
  using assms
  by (auto simp: request_and_copy_def range_request_def Let_def StatusPartialContent_def
        StatusRequestedRangeNotSatisfiable_def split: prod.splits option.splits sum.splits if_splits)

lemma DownloadUpgrade_cases:
  assumes "DownloadUpgrade config v env w = (r, w')"
  obtains
    (already_downloaded)
      "files w (UpgradeDownloadFilename config) \<noteq> None" "r = None"
      "w' = perform (NoticeClientUpgradeDownloaded (UpgradeDownloadFilename config))
              (perform (os_Stat (UpgradeDownloadFilename config)) w)"
  | (client_failed) e where
      "files w (UpgradeDownloadFilename config) = None"
      "MakeTunneledHttpClient_err env = Some e" "r = Some (ContextError e)"
      "w' = perform (MakeTunneledHttpClient (Some e)) (perform (os_Stat (UpgradeDownloadFilename config)) w)"
  | (open_failed) e where
      "files w (UpgradeDownloadFilename config) = None"
      "MakeTunneledHttpClient_err env = None" "OpenFile_err env = Some e" "r = Some (ContextError e)"
      "w' = perform (os_OpenFile (partialFilename config v) open_flags 384 (Some e))
             (perform (MakeTunneledHttpClient None) (perform (os_Stat (UpgradeDownloadFilename config)) w))"
  | (opened) closed w4 where
      "files w (UpgradeDownloadFilename config) = None"
      "MakeTunneledHttpClient_err env = None" "OpenFile_err env = None"
      "request_and_copy config (partialFilename config v) env
         (perform (os_OpenFile (partialFilename config v) open_flags 384 None)
             (perform (MakeTunneledHttpClient None) (perform (os_Stat (UpgradeDownloadFilename config)) w)))
       = (r, closed, w4)"
      "w' = perform (file_Close (if closed then Some ErrClosed else Close_err env)) w4"
  using assms
  by (auto simp: DownloadUpgrade_def Let_def split: prod.splits option.splits if_splits)


lemma open_effect_contents: "open_effect open_flags p fs = fs(p \<mapsto> contents fs p)"
  by (auto simp: open_effect_creates contents_def split: option.splits)

lemma file_size_opened [simp]: "file_size (fs(p \<mapsto> c)) p = length c"
  by (simp add: file_size_def)

lemma file_size_contents: "file_size fs p = length (contents fs p)"
  by (simp add: file_size_def contents_def split: option.splits)

lemma contents_upd [simp]: "contents (fs(p \<mapsto> c)) p = c"
  by (simp add: contents_def)

lemma append_file_upd [simp]: "append_file p bs (fs(p \<mapsto> c)) = fs(p \<mapsto> c @ bs)"
  by (simp add: append_file_def)

lemma rename_file_upd [simp]: "rename_file p q (fs(p \<mapsto> c)) = (fs(p := None))(q \<mapsto> c)"
  by (simp add: rename_file_def)

lemma DownloadUpgrade_paths:
  assumes run: "DownloadUpgrade config v env (start fs) = (r, w')"
  obtains
    (already_downloaded)
      "fs (UpgradeDownloadFilename config) \<noteq> None" "r = None" "files w' = fs"
      "trace w' = [os_Stat (UpgradeDownloadFilename config),
                   NoticeClientUpgradeDownloaded (UpgradeDownloadFilename config)]"
  | (client_failed) e where
      "fs (UpgradeDownloadFilename config) = None"
      "MakeTunneledHttpClient_err env = Some e" "r = Some (ContextError e)" "files w' = fs"
      "trace w' = [os_Stat (UpgradeDownloadFilename config), MakeTunneledHttpClient (Some e)]"
  | (open_failed) e where
      "fs (UpgradeDownloadFilename config) = None"
      "MakeTunneledHttpClient_err env = None" "OpenFile_err env = Some e"
      "r = Some (ContextError e)" "files w' = fs"
      "trace w' = [os_Stat (UpgradeDownloadFilename config), MakeTunneledHttpClient None,
                   os_OpenFile (partialFilename config v) open_flags 384 (Some e)]"
  | (stat_failed) e where
      "fs (UpgradeDownloadFilename config) = None"
      "MakeTunneledHttpClient_err env = None" "OpenFile_err env = None" "Stat_err env = Some e"
      "r = Some (ContextError e)"
      "files w' = fs(partialFilename config v \<mapsto> contents fs (partialFilename config v))"
      "trace w' = [os_Stat (UpgradeDownloadFilename config), MakeTunneledHttpClient None,
                   os_OpenFile (partialFilename config v) open_flags 384 None, file_Stat (Some e),
                   file_Close (Close_err env)]"
  | (request_failed) e where
      "fs (UpgradeDownloadFilename config) = None"
      "MakeTunneledHttpClient_err env = None" "OpenFile_err env = None" "Stat_err env = None"
      "NewRequest_err env = Some e" "r = Some (ContextError e)"
      "files w' = fs(partialFilename config v \<mapsto> contents fs (partialFilename config v))"
      "trace w' = [os_Stat (UpgradeDownloadFilename config), MakeTunneledHttpClient None,
                   os_OpenFile (partialFilename config v) open_flags 384 None, file_Stat None,
                   http_NewRequest ''GET'' (UpgradeDownloadUrl config) (Some e),
                   file_Close (Close_err env)]"
  | (transport_failed) e where
      "fs (UpgradeDownloadFilename config) = None"
      "MakeTunneledHttpClient_err env = None" "OpenFile_err env = None" "Stat_err env = None"
      "NewRequest_err env = None" "Do_result env = Inl e" "r = Some (ContextError e)"
      "files w' = fs(partialFilename config v \<mapsto> contents fs (partialFilename config v))"
      "trace w' = calls_before_response config v fs @ [file_Close (Close_err env)]"
  | (bad_status) resp where
      "fs (UpgradeDownloadFilename config) = None"
      "MakeTunneledHttpClient_err env = None" "OpenFile_err env = None" "Stat_err env = None"
      "NewRequest_err env = None" "Do_result env = Inr resp"
      "StatusCode resp \<noteq> 206" "StatusCode resp \<noteq> 416"
      "r = Some (ContextError (UnexpectedStatus (StatusCode resp)))"
      "files w' = fs(partialFilename config v \<mapsto> contents fs (partialFilename config v))"
      "trace w' = calls_before_response config v fs @ [Body_Close, file_Close (Close_err env)]"
  | (copy_failed) resp tr e where
      "fs (UpgradeDownloadFilename config) = None"
      "MakeTunneledHttpClient_err env = None" "OpenFile_err env = None" "Stat_err env = None"
      "NewRequest_err env = None" "Do_result env = Inr resp"
      "StatusCode resp = 206 \<or> StatusCode resp = 416"
      "\<forall>a\<in>set tr. is_copy_call (partialFilename config v) a"
      "prefix (written_bytes tr) (concat (chunks (Body resp)))"
      "r = Some (ContextError e)"
      "files w' = fs(partialFilename config v \<mapsto> contents fs (partialFilename config v) @ written_bytes tr)"
      "trace w' = calls_before_response config v fs @ tr @ [Body_Close, file_Close (Close_err env)]"
  | (close_failed) resp tr e where
      "fs (UpgradeDownloadFilename config) = None"
      "MakeTunneledHttpClient_err env = None" "OpenFile_err env = None" "Stat_err env = None"
      "NewRequest_err env = None" "Do_result env = Inr resp"
      "StatusCode resp = 206 \<or> StatusCode resp = 416"
      "\<forall>a\<in>set tr. is_copy_call (partialFilename config v) a"
      "written_bytes tr = concat (chunks (Body resp))"
      "Close_err env = Some e" "r = Some (ContextError e)"
      "files w' = fs(partialFilename config v \<mapsto> contents fs (partialFilename config v) @ written_bytes tr)"
      "trace w' = calls_before_response config v fs @ tr @
                  [NoticeInfo downloaded_bytes_format [length (written_bytes tr)],
                   file_Close (Some e), Body_Close, file_Close (Some ErrClosed)]"
  | (rename_failed) resp tr e where
      "fs (UpgradeDownloadFilename config) = None"
      "MakeTunneledHttpClient_err env = None" "OpenFile_err env = None" "Stat_err env = None"
      "NewRequest_err env = None" "Do_result env = Inr resp"
      "StatusCode resp = 206 \<or> StatusCode resp = 416"
      "\<forall>a\<in>set tr. is_copy_call (partialFilename config v) a"
      "written_bytes tr = concat (chunks (Body resp))"
      "Close_err env = None" "Rename_err env = Some e" "r = Some (ContextError e)"
      "files w' = fs(partialFilename config v \<mapsto> contents fs (partialFilename config v) @ written_bytes tr)"
      "trace w' = calls_before_response config v fs @ tr @
                  [NoticeInfo downloaded_bytes_format [length (written_bytes tr)],
                   file_Close None,
                   os_Rename (partialFilename config v) (UpgradeDownloadFilename config) (Some e),
                   Body_Close, file_Close (Some ErrClosed)]"
  | (published) resp tr where
      "fs (UpgradeDownloadFilename config) = None"
      "MakeTunneledHttpClient_err env = None" "OpenFile_err env = None" "Stat_err env = None"
      "NewRequest_err env = None" "Do_result env = Inr resp"
      "StatusCode resp = 206 \<or> StatusCode resp = 416"
      "\<forall>a\<in>set tr. is_copy_call (partialFilename config v) a"
      "written_bytes tr = concat (chunks (Body resp))"
      "Close_err env = None" "Rename_err env = None" "r = None"
      "files w' = (fs(partialFilename config v := None))
                    (UpgradeDownloadFilename config \<mapsto> contents fs (partialFilename config v) @ written_bytes tr)"
      "trace w' = calls_before_response config v fs @ tr @
                  [NoticeInfo downloaded_bytes_format [length (written_bytes tr)],
                   file_Close None,
                   os_Rename (partialFilename config v) (UpgradeDownloadFilename config) None,
                   NoticeClientUpgradeDownloaded (UpgradeDownloadFilename config),
                   Body_Close, file_Close (Some ErrClosed)]"
proof (cases rule: DownloadUpgrade_cases[OF run])
  case 1
  then show ?thesis using already_downloaded by simp
next
  case (2 e)
  then show ?thesis using client_failed by simp
next
  case (3 e)
  then show ?thesis using open_failed by simp
next
  case (4 closed w4)
  let ?p = "partialFilename config v"
  let ?fs1 = "fs(?p \<mapsto> contents fs ?p)"
  from 4(4) show ?thesis
  proof (cases rule: request_and_copy_cases)
    case (stat_failed e)
    then show ?thesis using 4 that(4)[of e] by (simp add: open_effect_contents)
  next
    case (request_failed e)
    then show ?thesis using 4 that(5)[of e] by (simp add: open_effect_contents)
  next
    case (transport_failed e)
    then show ?thesis using 4 that(6)[of e]
      by (simp add: open_effect_contents calls_before_response_def file_size_contents)
  next
    case (bad_status resp)
    then show ?thesis using 4 that(7)[of resp]
      by (simp add: open_effect_contents calls_before_response_def file_size_contents)
  next
    case (copying resp w5)
    define w3 where "w3 = perform (httpClient_Do (range_request config (file_size (files
         (perform (os_OpenFile ?p open_flags 384 None)
             (perform (MakeTunneledHttpClient None) (perform (os_Stat (UpgradeDownloadFilename config)) (start fs))))) ?p)))
              (perform (http_NewRequest ''GET'' (UpgradeDownloadUrl config) None) (perform (file_Stat None)
         (perform (os_OpenFile ?p open_flags 384 None)
             (perform (MakeTunneledHttpClient None) (perform (os_Stat (UpgradeDownloadFilename config)) (start fs))))))"
    have w3_files: "files w3 = ?fs1" and w3_trace: "trace w3 = calls_before_response config v fs"
      by (simp_all add: w3_def open_effect_contents calls_before_response_def file_size_contents)
    from copying(5) have cp: "copy_and_publish config ?p env resp w3 = (r, closed, w5)"
      by (simp add: w3_def)
    from cp show ?thesis
    proof (cases rule: copy_and_publish_cases)
      case (copy_failed n e w1)
      from io_Copy_log[OF copy_failed(1)] obtain tr where tr:
        "trace w1 = trace w3 @ tr" "\<forall>a\<in>set tr. is_copy_call ?p a"
        "files w1 = append_file ?p (written_bytes tr) (files w3)"
        "prefix (written_bytes tr) (concat (chunks (Body resp)))" by auto
      show ?thesis
        using that(8)[of resp tr e] 4 copying copy_failed tr w3_files w3_trace by simp
    next
      case (close_failed n w1 e)
      from io_Copy_log[OF close_failed(1)] obtain tr where tr:
        "trace w1 = trace w3 @ tr" "\<forall>a\<in>set tr. is_copy_call ?p a"
        "files w1 = append_file ?p (written_bytes tr) (files w3)"
        "n = length (written_bytes tr)"
        "written_bytes tr = concat (chunks (Body resp))" by auto
      show ?thesis
        using that(9)[of resp tr e] 4 copying close_failed tr w3_files w3_trace by simp
    next
      case (rename_failed n w1 e)
      from io_Copy_log[OF rename_failed(1)] obtain tr where tr:
        "trace w1 = trace w3 @ tr" "\<forall>a\<in>set tr. is_copy_call ?p a"
        "files w1 = append_file ?p (written_bytes tr) (files w3)"
        "n = length (written_bytes tr)"
        "written_bytes tr = concat (chunks (Body resp))" by auto
      show ?thesis
        using that(10)[of resp tr e] 4 copying rename_failed tr w3_files w3_trace by simp
    next
      case (published n w1)
      from io_Copy_log[OF published(1)] obtain tr where tr:
        "trace w1 = trace w3 @ tr" "\<forall>a\<in>set tr. is_copy_call ?p a"
        "files w1 = append_file ?p (written_bytes tr) (files w3)"
        "n = length (written_bytes tr)"
        "written_bytes tr = concat (chunks (Body resp))" by auto
      show ?thesis
        using that(11)[of resp tr] 4 copying published tr w3_files w3_trace by simp
    qed
  qed
qed

lemmas run_defs = DownloadUpgrade_def request_and_copy_def copy_and_publish_def perform_def
  SyncFileWriter_Write_def
  start_def partialFilename_def open_flags_def open_effect_def append_file_def rename_file_def
  file_size_def StatusPartialContent_def StatusRequestedRangeNotSatisfiable_def Let_def
  range_request_def range_header_def downloaded_bytes_format_def contents_def

lemmas ex_defs = ex_config_def ex_env_def ex_response_def

lemma success_publishes:
  assumes "fst (DownloadUpgrade config v env (start fs)) = None"
  shows "files (snd (DownloadUpgrade config v env (start fs))) (UpgradeDownloadFilename config) \<noteq> None"
proof -
  obtain r w' where run: "DownloadUpgrade config v env (start fs) = (r, w')"
    by (cases "DownloadUpgrade config v env (start fs)")
  with assms have r: "r = None" by simp
  from run show ?thesis
  proof (cases rule: DownloadUpgrade_paths)
    case already_downloaded
    then show ?thesis using run by simp
  next
    case (published resp tr)
    then show ?thesis using run by simp
  qed (use r in simp_all)
qed

subsection \<open>Where a call stands in the log\<close>

lemma unique_occurrence:
  assumes "xs @ a # ys = pre @ b # post" and "b \<notin> set xs" and "b \<notin> set ys"
  shows "pre = xs \<and> b = a \<and> post = ys"
proof -
  from assms(1) obtain us where
    "(xs = pre @ us \<and> us @ a # ys = b # post) \<or> (xs @ us = pre \<and> a # ys = us @ b # post)"
    by (auto simp: append_eq_append_conv2)
  then show ?thesis
  proof
    assume h: "xs = pre @ us \<and> us @ a # ys = b # post"
    show ?thesis
    proof (cases us)
      case Nil
      with h show ?thesis by simp
    next
      case (Cons u us')
      with h have "b \<in> set xs" by simp
      with assms(2) show ?thesis by simp
    qed
  next
    assume h: "xs @ us = pre \<and> a # ys = us @ b # post"
    show ?thesis
    proof (cases us)
      case Nil
      with h show ?thesis by simp
    next
      case (Cons u us')
      with h have "b \<in> set ys" by simp
      with assms(3) show ?thesis by simp
    qed
  qed
qed

lemma copy_call_cases:
  "is_copy_call p a \<Longrightarrow> (\<exists>c. a = Body_Read c) \<or> (\<exists>c. a = file_Write p c)"
  by (cases a) auto

lemma replay_copy_calls:
  "\<forall>a\<in>set tr. is_copy_call p a \<Longrightarrow> replay fs tr = append_file p (written_bytes tr) fs"
proof (induction tr arbitrary: fs)
  case Nil
  then show ?case by simp
next
  case (Cons a tr)
  then have "is_copy_call p a" and rest: "\<forall>a\<in>set tr. is_copy_call p a" by simp_all
  from copy_call_cases[OF this(1)] show ?case
    using Cons.IH[OF rest] by (auto simp: append_file_append)
qed

lemma replay_before_response:
  "replay fs (calls_before_response config v fs) =
     fs(partialFilename config v \<mapsto> contents fs (partialFilename config v))"
  by (simp add: calls_before_response_def open_effect_contents)

text \<open>The request of a run: it is the sixth call, and the five before it leave the
  Partial File with the bytes it had.\<close>

lemma request_of_run:
  assumes "trace (snd (DownloadUpgrade config v env (start fs))) = pre @ httpClient_Do req # post"
  shows "pre = calls_before_request config v \<and>
         req = range_request config (file_size fs (partialFilename config v))"
proof -
  obtain r w' where run: "DownloadUpgrade config v env (start fs) = (r, w')"
    by (cases "DownloadUpgrade config v env (start fs)")
  let ?five = "calls_before_request config v"
  let ?do = "httpClient_Do (range_request config (file_size fs (partialFilename config v)))"
  have cbr: "calls_before_response config v fs = ?five @ [?do]"
    by (simp add: calls_before_response_def calls_before_request_def)
  have five: "httpClient_Do req \<notin> set ?five"
    by (simp add: calls_before_request_def)
  have notr: "httpClient_Do req \<notin> set tr"
    if "\<forall>a\<in>set tr. is_copy_call (partialFilename config v) a" for tr
    using that by (auto dest!: bspec copy_call_cases)
  have key: "pre = ?five \<and> req = range_request config (file_size fs (partialFilename config v))"
    if "trace w' = calls_before_response config v fs @ ys" "httpClient_Do req \<notin> set ys" for ys
  proof -
    have "trace w' = pre @ httpClient_Do req # post"
      using assms run by simp
    with that(1) have "?five @ ?do # ys = pre @ httpClient_Do req # post"
      by (simp only: cbr append_assoc append_Cons append_Nil)
    from unique_occurrence[OF this five that(2)] show ?thesis by simp
  qed
  from run show ?thesis
  proof (cases rule: DownloadUpgrade_paths)
    case (transport_failed e)
    with key[of "[file_Close (Close_err env)]"] show ?thesis by simp
  next
    case (bad_status resp)
    with key[of "[Body_Close, file_Close (Close_err env)]"] show ?thesis by simp
  next
    case (copy_failed resp tr e)
    with key[of "tr @ [Body_Close, file_Close (Close_err env)]"] notr[of tr] show ?thesis by simp
  next
    case (close_failed resp tr e)
    with key[of "tr @ [NoticeInfo downloaded_bytes_format [length (written_bytes tr)],
                   file_Close (Some e), Body_Close, file_Close (Some ErrClosed)]"] notr[of tr]
    show ?thesis by simp
  next
    case (rename_failed resp tr e)
    with key[of "tr @ [NoticeInfo downloaded_bytes_format [length (written_bytes tr)],
                   file_Close None,
                   os_Rename (partialFilename config v) (UpgradeDownloadFilename config) (Some e),
                   Body_Close, file_Close (Some ErrClosed)]"] notr[of tr]
    show ?thesis by simp
  next
    case (published resp tr)
    with key[of "tr @ [NoticeInfo downloaded_bytes_format [length (written_bytes tr)],
                   file_Close None,
                   os_Rename (partialFilename config v) (UpgradeDownloadFilename config) None,
                   NoticeClientUpgradeDownloaded (UpgradeDownloadFilename config),
                   Body_Close, file_Close (Some ErrClosed)]"] notr[of tr]
    show ?thesis by simp
  qed (use assms run in \<open>auto simp: Cons_eq_append_conv append_eq_Cons_conv\<close>)
qed


text \<open>The byte-count notice of a run: what precedes it is the six calls up to the
  request and the calls of a copy that delivered the whole body.\<close>

lemma notice_of_run:
  assumes "trace (snd (DownloadUpgrade config v env (start fs))) = pre @ NoticeInfo f args # post"
  shows "\<exists>resp tr. Do_result env = Inr resp \<and>
           pre = calls_before_response config v fs @ tr \<and>
           (\<forall>a\<in>set tr. is_copy_call (partialFilename config v) a) \<and>
           written_bytes tr = concat (chunks (Body resp)) \<and>
           f = downloaded_bytes_format \<and> args = [length (concat (chunks (Body resp)))] \<and>
           post = file_Close (Close_err env) #
                  (if Close_err env = None
                   then os_Rename (partialFilename config v) (UpgradeDownloadFilename config) (Rename_err env) #
                        (if Rename_err env = None
                         then [NoticeClientUpgradeDownloaded (UpgradeDownloadFilename config)] else [])
                   else []) @ [Body_Close, file_Close (Some ErrClosed)]"
proof -
  obtain r w' where run: "DownloadUpgrade config v env (start fs) = (r, w')"
    by (cases "DownloadUpgrade config v env (start fs)")
  let ?n = "NoticeInfo f args"
  have tr': "trace w' = pre @ ?n # post"
    using assms run by simp
  then have mem: "?n \<in> set (trace w')" by simp
  have notr: "?n \<notin> set tr"
    if "\<forall>a\<in>set tr. is_copy_call (partialFilename config v) a" for tr
    using that by (auto dest!: bspec copy_call_cases)
  have nocbr: "?n \<notin> set (calls_before_response config v fs)"
    by (simp add: calls_before_response_def)
  have key: "pre = calls_before_response config v fs @ tr \<and> ?n = a \<and> post = ys"
    if "trace w' = calls_before_response config v fs @ tr @ a # ys"
      "\<forall>a\<in>set tr. is_copy_call (partialFilename config v) a" "?n \<notin> set ys" for tr a ys
  proof -
    from that(1) tr' have "(calls_before_response config v fs @ tr) @ a # ys = pre @ ?n # post"
      by simp
    moreover have "?n \<notin> set (calls_before_response config v fs @ tr)"
      using nocbr notr[OF that(2)] by simp
    ultimately show ?thesis using that(3) by (rule unique_occurrence)
  qed
  from run show ?thesis
  proof (cases rule: DownloadUpgrade_paths)
    case (copy_failed resp tr e)
    with mem nocbr notr[of tr] show ?thesis by simp
  next
    case (close_failed resp tr e)
    from key[OF close_failed(13) close_failed(8)] close_failed show ?thesis by simp
  next
    case (rename_failed resp tr e)
    from key[OF rename_failed(14) rename_failed(8)] rename_failed show ?thesis by simp
  next
    case (published resp tr)
    from key[OF published(14) published(8)] published show ?thesis by simp
  qed (use mem nocbr in \<open>simp_all add: calls_before_response_def\<close>)
qed

text \<open>The rename of a run: what precedes it ends with the byte-count notice and the
  successful close of the file.\<close>

lemma rename_of_run:
  assumes "trace (snd (DownloadUpgrade config v env (start fs))) = pre @ os_Rename src dst res # post"
  shows "\<exists>resp tr. Do_result env = Inr resp \<and>
           pre = calls_before_response config v fs @ tr @
                 [NoticeInfo downloaded_bytes_format [length (concat (chunks (Body resp)))],
                  file_Close None] \<and>
           (\<forall>a\<in>set tr. is_copy_call (partialFilename config v) a) \<and>
           written_bytes tr = concat (chunks (Body resp)) \<and>
           Close_err env = None \<and>
           src = partialFilename config v \<and> dst = UpgradeDownloadFilename config \<and>
           res = Rename_err env \<and>
           post = (if Rename_err env = None
                   then [NoticeClientUpgradeDownloaded (UpgradeDownloadFilename config)] else []) @
                  [Body_Close, file_Close (Some ErrClosed)]"
proof -
  obtain r w' where run: "DownloadUpgrade config v env (start fs) = (r, w')"
    by (cases "DownloadUpgrade config v env (start fs)")
  let ?n = "os_Rename src dst res"
  have tr': "trace w' = pre @ ?n # post"
    using assms run by simp
  then have mem: "?n \<in> set (trace w')" by simp
  have notr: "?n \<notin> set tr"
    if "\<forall>a\<in>set tr. is_copy_call (partialFilename config v) a" for tr
    using that by (auto dest!: bspec copy_call_cases)
  have nocbr: "?n \<notin> set (calls_before_response config v fs)"
    by (simp add: calls_before_response_def)
  have key: "pre = calls_before_response config v fs @ tr @ [n1, n2] \<and> ?n = a \<and> post = ys"
    if "trace w' = calls_before_response config v fs @ tr @ n1 # n2 # a # ys"
      "\<forall>a\<in>set tr. is_copy_call (partialFilename config v) a" "?n \<notin> set ys"
      "?n \<noteq> n1" "?n \<noteq> n2" for tr n1 n2 a ys
  proof -
    from that(1) tr' have "(calls_before_response config v fs @ tr @ [n1, n2]) @ a # ys = pre @ ?n # post"
      by simp
    moreover have "?n \<notin> set (calls_before_response config v fs @ tr @ [n1, n2])"
      using nocbr notr[OF that(2)] that(4,5) by simp
    ultimately show ?thesis using that(3) by (rule unique_occurrence)
  qed
  from run show ?thesis
  proof (cases rule: DownloadUpgrade_paths)
    case (copy_failed resp tr e)
    with mem nocbr notr[of tr] show ?thesis by simp
  next
    case (close_failed resp tr e)
    with mem nocbr notr[of tr] show ?thesis by simp
  next
    case (rename_failed resp tr e)
    from key[OF rename_failed(14) rename_failed(8)] rename_failed show ?thesis by simp
  next
    case (published resp tr)
    from key[OF published(14) published(8)] published show ?thesis by simp
  qed (use mem nocbr in \<open>simp_all add: calls_before_response_def\<close>)
qed

section \<open>Properties of \<open>DownloadUpgrade\<close>\<close>

text \<open>
  C4. When a file already exists at the final artifact path, \<open>DownloadUpgrade\<close> returns
  success at once: the only calls are the \<open>os.Stat\<close> of the final path and the
  artifact-available notice, so there is no client construction, no request, no open of
  the Partial File and no write, and the filesystem is what it was. An invocation that
  returns success leaves a file at the final path, so any invocation after it (whatever
  the version and whatever the environment) is this short circuit again.
\<close>

theorem final_exists_returns_immediately:
  "(fs (UpgradeDownloadFilename config) \<noteq> None \<longrightarrow>
      DownloadUpgrade config v env (start fs) =
        (None, \<lparr>files = fs,
                trace = [os_Stat (UpgradeDownloadFilename config),
                         NoticeClientUpgradeDownloaded (UpgradeDownloadFilename config)]\<rparr>)) \<and>
   (fst (DownloadUpgrade config v env (start fs)) = None \<longrightarrow>
      DownloadUpgrade config v' env' (start (files (snd (DownloadUpgrade config v env (start fs))))) =
        (None, \<lparr>files = files (snd (DownloadUpgrade config v env (start fs))),
                trace = [os_Stat (UpgradeDownloadFilename config),
                         NoticeClientUpgradeDownloaded (UpgradeDownloadFilename config)]\<rparr>))"
proof -
  have short: "DownloadUpgrade config u e (start f) =
        (None, \<lparr>files = f,
                trace = [os_Stat (UpgradeDownloadFilename config),
                         NoticeClientUpgradeDownloaded (UpgradeDownloadFilename config)]\<rparr>)"
    if "f (UpgradeDownloadFilename config) \<noteq> None" for f u e
    using that by (simp add: DownloadUpgrade_def Let_def perform_def start_def)
  have again: "DownloadUpgrade config v' env'
        (start (files (snd (DownloadUpgrade config v env (start fs))))) =
        (None, \<lparr>files = files (snd (DownloadUpgrade config v env (start fs))),
                trace = [os_Stat (UpgradeDownloadFilename config),
                         NoticeClientUpgradeDownloaded (UpgradeDownloadFilename config)]\<rparr>)"
    if "fst (DownloadUpgrade config v env (start fs)) = None"
    by (rule short) (rule success_publishes[OF that])
  show ?thesis
    using short[of fs v env] again by blast
qed

theorem final_exists_returns_immediately_witness:
  "[''up'' \<mapsto> [1, 2, 3]] (UpgradeDownloadFilename ex_config) \<noteq> None \<and>
   DownloadUpgrade ex_config ''7'' (ex_env (ex_response 206 [[4]])) (start [''up'' \<mapsto> [1, 2, 3]]) =
     (None, \<lparr>files = [''up'' \<mapsto> [1, 2, 3]],
             trace = [os_Stat ''up'', NoticeClientUpgradeDownloaded ''up'']\<rparr>) \<and>
   fst (DownloadUpgrade ex_config ''7'' (ex_env (ex_response 206 [[4]])) (start Map.empty)) = None \<and>
   fst (DownloadUpgrade ex_config ''7'' (ex_env (ex_response 404 []))
     (start (files (snd (DownloadUpgrade ex_config ''7'' (ex_env (ex_response 206 [[4]])) (start Map.empty)))))) = None"
proof -
  have h1: "[''up'' \<mapsto> [1, 2, 3::byte]] (UpgradeDownloadFilename ex_config) \<noteq> None"
    by (simp add: ex_defs)
  have h2: "fst (DownloadUpgrade ex_config ''7'' (ex_env (ex_response 206 [[4]])) (start Map.empty)) = None"
    by (simp add: ex_defs run_defs)
  show ?thesis
    using h1 h2
      final_exists_returns_immediately[of "[''up'' \<mapsto> [1, 2, 3]]" ex_config "''7''"
        "ex_env (ex_response 206 [[4]])" "''7''" "ex_env (ex_response 404 [])"]
      final_exists_returns_immediately[of Map.empty ex_config "''7''"
        "ex_env (ex_response 206 [[4]])" "''7''" "ex_env (ex_response 404 [])"]
    by (simp add: ex_config_def)
qed

text \<open>
  C10. The tunneled HTTP client is constructed inside \<open>DownloadUpgrade\<close>, after the
  \<open>os.Stat\<close> of the final path and before the Partial File is opened: when there is no
  file at the final path, the second call is the construction and the third, made only
  when the construction succeeded, is the open. When the construction fails the function
  returns that error wrapped, the filesystem is what it was and the Partial File was not
  opened.
\<close>

theorem client_failure_leaves_filesystem:
  assumes "fs (UpgradeDownloadFilename config) = None"
  shows "(MakeTunneledHttpClient_err env = Some e \<longrightarrow>
            DownloadUpgrade config v env (start fs) =
              (Some (ContextError e),
               \<lparr>files = fs,
                trace = [os_Stat (UpgradeDownloadFilename config), MakeTunneledHttpClient (Some e)]\<rparr>)) \<and>
         (MakeTunneledHttpClient_err env = None \<longrightarrow>
            take 3 (trace (snd (DownloadUpgrade config v env (start fs)))) =
              [os_Stat (UpgradeDownloadFilename config), MakeTunneledHttpClient None,
               os_OpenFile (partialFilename config v) open_flags 384 (OpenFile_err env)])"
proof -
  obtain r w' where run: "DownloadUpgrade config v env (start fs) = (r, w')"
    by (cases "DownloadUpgrade config v env (start fs)")
  from run show ?thesis
    by (cases rule: DownloadUpgrade_paths)
       (use assms run in \<open>simp_all add: calls_before_response_def\<close>)
qed

theorem client_failure_leaves_filesystem_witness:
  "Map.empty (UpgradeDownloadFilename ex_config) = (None :: byte list option) \<and>
   DownloadUpgrade ex_config ''7''
      ((ex_env (ex_response 206 [[4]]))\<lparr>MakeTunneledHttpClient_err := Some (External ''no tunnel'')\<rparr>)
      (start Map.empty) =
     (Some (ContextError (External ''no tunnel'')),
      \<lparr>files = Map.empty,
        trace = [os_Stat ''up'', MakeTunneledHttpClient (Some (External ''no tunnel''))]\<rparr>) \<and>
   take 3 (trace (snd (DownloadUpgrade ex_config ''7'' (ex_env (ex_response 206 [[4]])) (start Map.empty)))) =
     [os_Stat ''up'', MakeTunneledHttpClient None,
      os_OpenFile ''up.7.part'' [O_CREATE, O_APPEND, O_WRONLY] 384 None]"
proof -
  have h: "Map.empty (UpgradeDownloadFilename ex_config) = (None :: byte list option)"
    by simp
  show ?thesis
    using
      client_failure_leaves_filesystem[OF h, where
        env = "(ex_env (ex_response 206 [[4]]))\<lparr>MakeTunneledHttpClient_err := Some (External ''no tunnel'')\<rparr>"
        and e = "External ''no tunnel''" and v = "''7''"]
      client_failure_leaves_filesystem[OF h, where env = "ex_env (ex_response 206 [[4]])"
        and e = "External ''no tunnel''" and v = "''7''"]
    by (simp add: ex_defs partialFilename_def open_flags_def)
qed

text \<open>
  C9. On the download path (no file at the final path, client constructed) the third
  call is the one open of the whole run; its path is the final path, a dot, the version
  identifier and \<open>.part\<close>; its flags are \<open>O_CREATE\<close>, \<open>O_APPEND\<close>, \<open>O_WRONLY\<close>
  (no \<open>O_TRUNC\<close>). When it succeeds, the filesystem right after it has an empty file
  at that path if there was none and is unchanged if there was one.
\<close>

theorem partial_file_opened_for_append:
  assumes "fs (UpgradeDownloadFilename config) = None"
    and "MakeTunneledHttpClient_err env = None"
  shows "take 3 (trace (snd (DownloadUpgrade config v env (start fs)))) =
           [os_Stat (UpgradeDownloadFilename config), MakeTunneledHttpClient None,
            os_OpenFile (UpgradeDownloadFilename config @ ''.'' @ v @ ''.part'')
              [O_CREATE, O_APPEND, O_WRONLY] 384 (OpenFile_err env)] \<and>
         (\<forall>a\<in>set (drop 3 (trace (snd (DownloadUpgrade config v env (start fs))))).
            \<forall>p flags perm res. a \<noteq> os_OpenFile p flags perm res) \<and>
         (OpenFile_err env = None \<longrightarrow>
            states fs (trace (snd (DownloadUpgrade config v env (start fs)))) ! 3 =
              (case fs (UpgradeDownloadFilename config @ ''.'' @ v @ ''.part'') of
                 None \<Rightarrow> fs(UpgradeDownloadFilename config @ ''.'' @ v @ ''.part'' \<mapsto> [])
               | Some c \<Rightarrow> fs))"
proof -
  define p where "p = partialFilename config v"
  obtain r w' where run: "DownloadUpgrade config v env (start fs) = (r, w')"
    by (cases "DownloadUpgrade config v env (start fs)")
  have copy_no_open: "a \<noteq> os_OpenFile q flags perm res"
    if "\<forall>a\<in>set tr. is_copy_call p a" "a \<in> set tr" for tr a q flags perm res
    using that by (cases a) auto
  have opened: "replay fs [os_Stat (UpgradeDownloadFilename config), MakeTunneledHttpClient None,
            os_OpenFile p open_flags 384 None] =
       (case fs p of None \<Rightarrow> fs(p \<mapsto> []) | Some c \<Rightarrow> fs)"
    by (simp add: open_effect_creates)
  have "take 3 (trace w') =
           [os_Stat (UpgradeDownloadFilename config), MakeTunneledHttpClient None,
            os_OpenFile p open_flags 384 (OpenFile_err env)] \<and>
         (\<forall>a\<in>set (drop 3 (trace w')). \<forall>q flags perm res. a \<noteq> os_OpenFile q flags perm res) \<and>
         (OpenFile_err env = None \<longrightarrow>
            states fs (trace w') ! 3 = (case fs p of None \<Rightarrow> fs(p \<mapsto> []) | Some c \<Rightarrow> fs))"
    using run
  proof (cases rule: DownloadUpgrade_paths)
    case (copy_failed resp tr e)
    then show ?thesis
      using assms opened copy_no_open[of tr]
      by (auto simp: calls_before_response_def states_nth p_def[symmetric])
  next
    case (close_failed resp tr e)
    then show ?thesis
      using assms opened copy_no_open[of tr]
      by (auto simp: calls_before_response_def states_nth p_def[symmetric])
  next
    case (rename_failed resp tr e)
    then show ?thesis
      using assms opened copy_no_open[of tr]
      by (auto simp: calls_before_response_def states_nth p_def[symmetric])
  next
    case (published resp tr)
    then show ?thesis
      using assms opened copy_no_open[of tr]
      by (auto simp: calls_before_response_def states_nth p_def[symmetric])
  qed (use assms opened in \<open>auto simp: calls_before_response_def states_nth p_def[symmetric]\<close>)
  then show ?thesis
    unfolding run snd_conv p_def partialFilename_def open_flags_def .
qed


theorem partial_file_opened_for_append_witness:
  "Map.empty (UpgradeDownloadFilename ex_config) = (None :: byte list option) \<and>
   MakeTunneledHttpClient_err (ex_env (ex_response 206 [[4]])) = None \<and>
   take 3 (trace (snd (DownloadUpgrade ex_config ''7'' (ex_env (ex_response 206 [[4]])) (start Map.empty)))) =
     [os_Stat ''up'', MakeTunneledHttpClient None,
      os_OpenFile ''up.7.part'' [O_CREATE, O_APPEND, O_WRONLY] 384 None] \<and>
   Body_Close \<in> set (drop 3 (trace (snd (DownloadUpgrade ex_config ''7'' (ex_env (ex_response 206 [[4]])) (start Map.empty))))) \<and>
   Body_Close \<noteq> os_OpenFile ''up.7.part'' [O_CREATE, O_APPEND, O_WRONLY] 384 None \<and>
   OpenFile_err (ex_env (ex_response 206 [[4]])) = None \<and>
   states Map.empty (trace (snd (DownloadUpgrade ex_config ''7'' (ex_env (ex_response 206 [[4]])) (start Map.empty)))) ! 3 =
     [''up.7.part'' \<mapsto> []]"
proof -
  have h1: "Map.empty (UpgradeDownloadFilename ex_config) = (None :: byte list option)"
    by simp
  have h2: "MakeTunneledHttpClient_err (ex_env (ex_response 206 [[4]])) = None"
    by (simp add: ex_defs)
  have h3: "Body_Close \<in> set (drop 3 (trace (snd (DownloadUpgrade ex_config ''7'' (ex_env (ex_response 206 [[4]])) (start Map.empty)))))"
    by (simp add: ex_defs run_defs)
  show ?thesis
    using h2 h3 partial_file_opened_for_append[OF h1 h2, where v = "''7''"]
    by (simp add: ex_defs)
qed

text \<open>
  C3. When the request succeeds and the status is neither 206 nor 416, the function
  returns the unexpected-status error (wrapped); after the request the only calls are the
  close of the response body and the deferred close of the file (no read of the body, no
  write, no rename); and the filesystem at return is the filesystem at the moment the
  request was issued (the state after the first five calls): the Partial File holds the
  bytes it held, and is empty if the open created it.
\<close>

theorem unexpected_status_is_protocol_error:
  assumes "fs (UpgradeDownloadFilename config) = None"
    and "MakeTunneledHttpClient_err env = None" and "OpenFile_err env = None"
    and "Stat_err env = None" and "NewRequest_err env = None"
    and "Do_result env = Inr resp"
    and "StatusCode resp \<noteq> 206" and "StatusCode resp \<noteq> 416"
  shows "DownloadUpgrade config v env (start fs) =
           (Some (ContextError (UnexpectedStatus (StatusCode resp))),
            \<lparr>files = fs(partialFilename config v \<mapsto> contents fs (partialFilename config v)),
             trace = calls_before_response config v fs @ [Body_Close, file_Close (Close_err env)]\<rparr>) \<and>
         states fs (trace (snd (DownloadUpgrade config v env (start fs)))) ! 5 =
           files (snd (DownloadUpgrade config v env (start fs)))"
proof -
  obtain r w' where run: "DownloadUpgrade config v env (start fs) = (r, w')"
    by (cases "DownloadUpgrade config v env (start fs)")
  from run show ?thesis
    by (cases rule: DownloadUpgrade_paths)
       (use assms run in \<open>simp_all add: calls_before_response_def states_nth open_effect_contents\<close>)
qed

theorem unexpected_status_is_protocol_error_witness:
  "[''up.7.part'' \<mapsto> [1, 2]] (UpgradeDownloadFilename ex_config) = None \<and>
   MakeTunneledHttpClient_err (ex_env (ex_response 404 [[4]])) = None \<and>
   OpenFile_err (ex_env (ex_response 404 [[4]])) = None \<and>
   Stat_err (ex_env (ex_response 404 [[4]])) = None \<and>
   NewRequest_err (ex_env (ex_response 404 [[4]])) = None \<and>
   Do_result (ex_env (ex_response 404 [[4]])) = Inr (ex_response 404 [[4]]) \<and>
   StatusCode (ex_response 404 [[4]]) \<noteq> 206 \<and> StatusCode (ex_response 404 [[4]]) \<noteq> 416 \<and>
   fst (DownloadUpgrade ex_config ''7'' (ex_env (ex_response 404 [[4]])) (start [''up.7.part'' \<mapsto> [1, 2]])) =
     Some (ContextError (UnexpectedStatus 404)) \<and>
   files (snd (DownloadUpgrade ex_config ''7'' (ex_env (ex_response 404 [[4]])) (start [''up.7.part'' \<mapsto> [1, 2]])))
     ''up.7.part'' = Some [1, 2] \<and>
   files (snd (DownloadUpgrade ex_config ''7'' (ex_env (ex_response 404 [[4]])) (start [''up.7.part'' \<mapsto> [1, 2]])))
     ''up'' = None \<and>
   trace (snd (DownloadUpgrade ex_config ''7'' (ex_env (ex_response 404 [[4]])) (start [''up.7.part'' \<mapsto> [1, 2]]))) =
     [os_Stat ''up'', MakeTunneledHttpClient None,
      os_OpenFile ''up.7.part'' [O_CREATE, O_APPEND, O_WRONLY] 384 None, file_Stat None,
      http_NewRequest ''GET'' ''url'' None,
      httpClient_Do \<lparr>Method = ''GET'', URL = ''url'', Header = [(''Range'', ''bytes=2-'')]\<rparr>,
      Body_Close, file_Close None]"
proof -
  have h1: "[''up.7.part'' \<mapsto> [1, 2::byte]] (UpgradeDownloadFilename ex_config) = None"
    by (simp add: ex_defs)
  have h2: "MakeTunneledHttpClient_err (ex_env (ex_response 404 [[4]])) = None"
    and h3: "OpenFile_err (ex_env (ex_response 404 [[4]])) = None"
    and h4: "Stat_err (ex_env (ex_response 404 [[4]])) = None"
    and h5: "NewRequest_err (ex_env (ex_response 404 [[4]])) = None"
    and h6: "Do_result (ex_env (ex_response 404 [[4]])) = Inr (ex_response 404 [[4]])"
    and h7: "StatusCode (ex_response 404 [[4]]) \<noteq> 206"
    and h8: "StatusCode (ex_response 404 [[4]]) \<noteq> 416"
    by (simp_all add: ex_defs)
  show ?thesis
    using h1 h2 h3 h4 h5 h6 h7 h8
      unexpected_status_is_protocol_error[where fs = "[''up.7.part'' \<mapsto> [1, 2]]"
        and config = ex_config and env = "ex_env (ex_response 404 [[4]])"
        and resp = "ex_response 404 [[4]]" and v = "''7''", OF h1 h2 h3 h4 h5 h6 h7 h8]
    by (simp add: ex_defs calls_before_response_def partialFilename_def open_flags_def
          contents_def file_size_def range_request_def range_header_def show_nat_digit digit_char_def)
qed

lemma replay_before_request:
  "replay fs (calls_before_request config v) =
     fs(partialFilename config v \<mapsto> contents fs (partialFilename config v))"
  by (simp add: calls_before_request_def open_effect_contents)

text \<open>
  C2. The request of a run is a \<open>GET\<close> of the configured URL whose one header is
  \<open>Range: bytes=L-\<close>, where \<open>L\<close> is the length of the Partial File in the filesystem
  as the calls before the request left it. When the response has status 206 and the copy
  succeeds (the byte-count notice, which is emitted only then, is in the log), the notice
  reports the \<open>K\<close> bytes of the body, and the Partial File in the filesystem as the
  calls before the notice left it holds the bytes it held at request time followed by the
  body, so its length is \<open>L + K\<close>.
\<close>

theorem resume_range_and_append:
  "(trace (snd (DownloadUpgrade config v env (start fs))) = pre @ httpClient_Do req # post \<longrightarrow>
      req = \<lparr>Method = ''GET'', URL = UpgradeDownloadUrl config,
             Header = [(''Range'',
               ''bytes='' @ show_nat (file_size (replay fs pre) (partialFilename config v)) @ ''-'')]\<rparr>) \<and>
   (trace (snd (DownloadUpgrade config v env (start fs))) =
      pre @ httpClient_Do req # mid @ NoticeInfo f args # rest \<and>
    Do_result env = Inr resp \<and> StatusCode resp = 206 \<longrightarrow>
      args = [length (concat (chunks (Body resp)))] \<and>
      replay fs (pre @ httpClient_Do req # mid) (partialFilename config v) =
        Some (contents (replay fs pre) (partialFilename config v) @ concat (chunks (Body resp))) \<and>
      file_size (replay fs (pre @ httpClient_Do req # mid)) (partialFilename config v) =
        file_size (replay fs pre) (partialFilename config v) + length (concat (chunks (Body resp))))"
proof (intro conjI impI)
  assume "trace (snd (DownloadUpgrade config v env (start fs))) = pre @ httpClient_Do req # post"
  from request_of_run[OF this] show "req = \<lparr>Method = ''GET'', URL = UpgradeDownloadUrl config,
             Header = [(''Range'',
               ''bytes='' @ show_nat (file_size (replay fs pre) (partialFilename config v)) @ ''-'')]\<rparr>"
    by (simp add: replay_before_request range_request_def range_header_def file_size_contents)
next
  let ?p = "partialFilename config v"
  assume h: "trace (snd (DownloadUpgrade config v env (start fs))) =
      pre @ httpClient_Do req # mid @ NoticeInfo f args # rest \<and>
    Do_result env = Inr resp \<and> StatusCode resp = 206"
  then have t1: "trace (snd (DownloadUpgrade config v env (start fs))) =
      pre @ httpClient_Do req # (mid @ NoticeInfo f args # rest)"
    and t2: "trace (snd (DownloadUpgrade config v env (start fs))) =
      (pre @ httpClient_Do req # mid) @ NoticeInfo f args # rest"
    by simp_all
  from request_of_run[OF t1] have pre: "pre = calls_before_request config v" by simp
  from notice_of_run[OF t2] h obtain tr where tr:
    "pre @ httpClient_Do req # mid = calls_before_response config v fs @ tr"
    "\<forall>a\<in>set tr. is_copy_call ?p a"
    "written_bytes tr = concat (chunks (Body resp))"
    "args = [length (concat (chunks (Body resp)))]"
    by auto
  have after: "replay fs (pre @ httpClient_Do req # mid) =
      fs(?p \<mapsto> contents fs ?p @ concat (chunks (Body resp)))"
    by (simp only: tr(1) replay_append replay_before_response replay_copy_calls[OF tr(2)] tr(3)
          append_file_upd)
  have before: "replay fs pre = fs(?p \<mapsto> contents fs ?p)"
    by (simp add: pre replay_before_request)
  show "args = [length (concat (chunks (Body resp)))]" by (rule tr(4))
  show "replay fs (pre @ httpClient_Do req # mid) ?p =
        Some (contents (replay fs pre) ?p @ concat (chunks (Body resp)))"
    by (simp add: after before)
  show "file_size (replay fs (pre @ httpClient_Do req # mid)) ?p =
        file_size (replay fs pre) ?p + length (concat (chunks (Body resp)))"
    by (simp add: after before)
qed

text \<open>
  C7. Wherever a rename stands in the log of a run, the call just before it is a
  \<open>file.Close\<close> that returned no error, and it is the first close of the file; every
  byte the run writes is written before it (the writes before the rename are all the
  writes of the run, and no write follows the rename); the rename is of the Partial File
  to the final path. When the close fails there is no rename in the log at all.
  The model has no notion of durable storage: the flush is the \<open>file.Close()\<close> of
  line 103, as the comment on that line has it.
\<close>

theorem close_before_rename:
  "(trace (snd (DownloadUpgrade config v env (start fs))) = pre @ os_Rename src dst res # post \<longrightarrow>
      (\<exists>calls. pre = calls @ [file_Close None] \<and> (\<forall>a\<in>set calls. \<forall>r. a \<noteq> file_Close r)) \<and>
      written_bytes pre = written_bytes (trace (snd (DownloadUpgrade config v env (start fs)))) \<and>
      (\<forall>a\<in>set post. \<forall>p bs. a \<noteq> file_Write p bs) \<and>
      src = partialFilename config v \<and> dst = UpgradeDownloadFilename config) \<and>
   (Close_err env \<noteq> None \<longrightarrow>
      (\<forall>a\<in>set (trace (snd (DownloadUpgrade config v env (start fs)))).
         \<forall>src dst res. a \<noteq> os_Rename src dst res))"
proof (intro conjI impI)
  assume t: "trace (snd (DownloadUpgrade config v env (start fs))) = pre @ os_Rename src dst res # post"
  from rename_of_run[OF t] obtain resp :: response and tr where tr:
    "pre = calls_before_response config v fs @ tr @
                 [NoticeInfo downloaded_bytes_format [length (concat (chunks (Body resp)))],
                  file_Close None]"
    "\<forall>a\<in>set tr. is_copy_call (partialFilename config v) a"
    "src = partialFilename config v" "dst = UpgradeDownloadFilename config"
    "post = (if Rename_err env = None
                   then [NoticeClientUpgradeDownloaded (UpgradeDownloadFilename config)] else []) @
                  [Body_Close, file_Close (Some ErrClosed)]"
    by blast
  have noclose: "a \<noteq> file_Close r" if "a \<in> set tr" for a r
    using tr(2) that by (auto dest!: bspec copy_call_cases)
  show "\<exists>calls. pre = calls @ [file_Close None] \<and> (\<forall>a\<in>set calls. \<forall>r. a \<noteq> file_Close r)"
    using tr(1) noclose
    by (intro exI[of _ "calls_before_response config v fs @ tr @
                 [NoticeInfo downloaded_bytes_format [length (concat (chunks (Body resp)))]]"])
       (auto simp: calls_before_response_def)
  show "written_bytes pre = written_bytes (trace (snd (DownloadUpgrade config v env (start fs))))"
    unfolding t using tr(5) by (simp add: written_bytes_append)
  show "\<forall>a\<in>set post. \<forall>p bs. a \<noteq> file_Write p bs"
    using tr(5) by simp
  show "src = partialFilename config v" by (rule tr(3))
  show "dst = UpgradeDownloadFilename config" by (rule tr(4))
next
  assume ce: "Close_err env \<noteq> None"
  show "\<forall>a\<in>set (trace (snd (DownloadUpgrade config v env (start fs)))).
         \<forall>src dst res. a \<noteq> os_Rename src dst res"
  proof (intro ballI allI notI)
    fix a src dst res
    assume "a \<in> set (trace (snd (DownloadUpgrade config v env (start fs))))"
      and "a = os_Rename src dst res"
    then have "os_Rename src dst res \<in> set (trace (snd (DownloadUpgrade config v env (start fs))))"
      by simp
    then obtain pre post where
      "trace (snd (DownloadUpgrade config v env (start fs))) = pre @ os_Rename src dst res # post"
      by (auto dest: split_list)
    from rename_of_run[OF this] ce show False by blast
  qed
qed


lemmas ex_log_defs = ex_partial_def ex_rest_def ex_calls_before_request_def ex_request_def
  ex_copy_calls_def ex_notice_def

lemma ex_resumed_log:
  "trace (snd (DownloadUpgrade ex_config ''7'' (ex_env ex_rest) (start ex_partial))) =
     ex_calls_before_request @ httpClient_Do ex_request # ex_copy_calls @ ex_notice #
     [file_Close None, os_Rename ''up.7.part'' ''up'' None, NoticeClientUpgradeDownloaded ''up'',
      Body_Close, file_Close (Some ErrClosed)]"
  by (simp add: ex_defs ex_log_defs run_defs show_nat_digit digit_char_def)

theorem resume_range_and_append_witness:
  "trace (snd (DownloadUpgrade ex_config ''7'' (ex_env ex_rest) (start ex_partial))) =
     ex_calls_before_request @ httpClient_Do ex_request # ex_copy_calls @ ex_notice #
     [file_Close None, os_Rename ''up.7.part'' ''up'' None, NoticeClientUpgradeDownloaded ''up'',
      Body_Close, file_Close (Some ErrClosed)] \<and>
   Do_result (ex_env ex_rest) = Inr ex_rest \<and> StatusCode ex_rest = 206 \<and>
   Header ex_request = [(''Range'', ''bytes=2-'')] \<and>
   file_size (replay ex_partial ex_calls_before_request) ''up.7.part'' = 2 \<and>
   replay ex_partial (ex_calls_before_request @ httpClient_Do ex_request # ex_copy_calls) ''up.7.part'' =
     Some [1, 2, 3, 4, 5] \<and>
   file_size (replay ex_partial (ex_calls_before_request @ httpClient_Do ex_request # ex_copy_calls))
     ''up.7.part'' = 2 + 3"
proof -
  have h2: "Do_result (ex_env ex_rest) = Inr ex_rest" and h3: "StatusCode ex_rest = 206"
    by (simp_all add: ex_defs ex_log_defs)
  have before: "replay ex_partial ex_calls_before_request = ex_partial"
    by (simp add: ex_log_defs open_effect_def fun_eq_iff)
  have size: "file_size ex_partial ''up.7.part'' = 2" and old: "contents ex_partial ''up.7.part'' = [1, 2]"
    by (simp_all add: ex_log_defs file_size_def contents_def)
  have body: "concat (chunks (Body ex_rest)) = [3, 4, 5]"
    by (simp add: ex_defs ex_log_defs)
  note inst = resume_range_and_append[where config = ex_config and v = "''7''" and env = "ex_env ex_rest"
      and fs = ex_partial and pre = ex_calls_before_request and req = ex_request
      and mid = ex_copy_calls and f = "''client upgrade downloaded bytes: %d''" and args = "[3]"
      and resp = ex_rest
      and post = "ex_copy_calls @ ex_notice #
         [file_Close None, os_Rename ''up.7.part'' ''up'' None, NoticeClientUpgradeDownloaded ''up'',
          Body_Close, file_Close (Some ErrClosed)]"
      and rest = "[file_Close None, os_Rename ''up.7.part'' ''up'' None,
          NoticeClientUpgradeDownloaded ''up'', Body_Close, file_Close (Some ErrClosed)]"]
  have main: "replay ex_partial (ex_calls_before_request @ httpClient_Do ex_request # ex_copy_calls)
       (partialFilename ex_config ''7'') =
      Some (contents (replay ex_partial ex_calls_before_request) (partialFilename ex_config ''7'') @
            concat (chunks (Body ex_rest))) \<and>
     file_size (replay ex_partial (ex_calls_before_request @ httpClient_Do ex_request # ex_copy_calls))
       (partialFilename ex_config ''7'') =
      file_size (replay ex_partial ex_calls_before_request) (partialFilename ex_config ''7'') +
      length (concat (chunks (Body ex_rest)))"
    using inst[THEN conjunct2] ex_resumed_log h2 h3 by (simp add: ex_notice_def)
  have p: "partialFilename ex_config ''7'' = ''up.7.part''"
    by (simp add: partialFilename_def ex_defs)
  have req: "Header ex_request =
      [(''Range'', ''bytes='' @ show_nat (file_size (replay ex_partial ex_calls_before_request)
          (partialFilename ex_config ''7'')) @ ''-'')]"
  proof -
    from inst[THEN conjunct1] ex_resumed_log
    have e: "ex_request = \<lparr>Method = ''GET'', URL = UpgradeDownloadUrl ex_config,
        Header = [(''Range'', ''bytes='' @ show_nat (file_size (replay ex_partial ex_calls_before_request)
          (partialFilename ex_config ''7'')) @ ''-'')]\<rparr>"
      by simp
    show ?thesis using arg_cong[OF e, of Header] by simp
  qed
  show ?thesis
    using main req ex_resumed_log h2 h3
    by (simp add: p before size old body show_nat_digit digit_char_def)
qed

theorem close_before_rename_witness:
  "trace (snd (DownloadUpgrade ex_config ''7'' (ex_env ex_rest) (start ex_partial))) =
     (ex_calls_before_request @ httpClient_Do ex_request # ex_copy_calls @ [ex_notice, file_Close None]) @
     os_Rename ''up.7.part'' ''up'' None #
     [NoticeClientUpgradeDownloaded ''up'', Body_Close, file_Close (Some ErrClosed)] \<and>
   written_bytes (ex_calls_before_request @ httpClient_Do ex_request # ex_copy_calls @ [ex_notice, file_Close None]) =
     [3, 4, 5] \<and>
   written_bytes (trace (snd (DownloadUpgrade ex_config ''7'' (ex_env ex_rest) (start ex_partial)))) = [3, 4, 5] \<and>
   Close_err ((ex_env ex_rest)\<lparr>Close_err := Some (External ''close'')\<rparr>) \<noteq> None \<and>
   file_Close (Some (External ''close'')) \<in> set (trace (snd (DownloadUpgrade ex_config ''7''
      ((ex_env ex_rest)\<lparr>Close_err := Some (External ''close'')\<rparr>) (start ex_partial)))) \<and>
   os_Rename ''up.7.part'' ''up'' None \<notin> set (trace (snd (DownloadUpgrade ex_config ''7''
      ((ex_env ex_rest)\<lparr>Close_err := Some (External ''close'')\<rparr>) (start ex_partial))))"
proof -
  have log: "trace (snd (DownloadUpgrade ex_config ''7'' (ex_env ex_rest) (start ex_partial))) =
     (ex_calls_before_request @ httpClient_Do ex_request # ex_copy_calls @ [ex_notice, file_Close None]) @
     os_Rename ''up.7.part'' ''up'' None #
     [NoticeClientUpgradeDownloaded ''up'', Body_Close, file_Close (Some ErrClosed)]"
    using ex_resumed_log by simp
  have h: "Close_err ((ex_env ex_rest)\<lparr>Close_err := Some (External ''close'')\<rparr>) \<noteq> None"
    by simp
  have closed: "file_Close (Some (External ''close'')) \<in> set (trace (snd (DownloadUpgrade ex_config ''7''
      ((ex_env ex_rest)\<lparr>Close_err := Some (External ''close'')\<rparr>) (start ex_partial))))"
    by (simp add: ex_defs ex_log_defs run_defs)
  have w: "written_bytes (ex_calls_before_request @ httpClient_Do ex_request # ex_copy_calls @ [ex_notice, file_Close None]) =
     [3, 4, 5]"
    by (simp add: ex_log_defs)
  from close_before_rename[where config = ex_config and v = "''7''" and env = "ex_env ex_rest"
      and fs = ex_partial, THEN conjunct1, rule_format, OF log]
  have a: "written_bytes (ex_calls_before_request @ httpClient_Do ex_request # ex_copy_calls @ [ex_notice, file_Close None]) =
      written_bytes (trace (snd (DownloadUpgrade ex_config ''7'' (ex_env ex_rest) (start ex_partial))))"
    by blast
  from close_before_rename[where config = ex_config and v = "''7''"
      and env = "(ex_env ex_rest)\<lparr>Close_err := Some (External ''close'')\<rparr>"
      and fs = ex_partial, THEN conjunct2, rule_format, OF h]
  have b: "a \<in> set (trace (snd (DownloadUpgrade ex_config ''7''
      ((ex_env ex_rest)\<lparr>Close_err := Some (External ''close'')\<rparr>) (start ex_partial)))) \<Longrightarrow>
      a \<noteq> os_Rename src dst res" for a src dst res
    by blast
  show ?thesis
    using log h closed w a b by auto
qed

lemma states_invariant:
  "P fs \<Longrightarrow> (\<And>a s. a \<in> set tr \<Longrightarrow> P s \<Longrightarrow> P (fs_effect a s)) \<Longrightarrow> s \<in> set (states fs tr) \<Longrightarrow> P s"
proof (induction tr arbitrary: fs)
  case Nil
  then show ?case by simp
next
  case (Cons a tr)
  from Cons.prems(3) have "s = fs \<or> s \<in> set (states (fs_effect a fs) tr)" by simp
  then show ?case
  proof
    assume "s = fs"
    with Cons.prems(1) show ?thesis by simp
  next
    assume in_rest: "s \<in> set (states (fs_effect a fs) tr)"
    have "P (fs_effect a fs)" using Cons.prems(1,2) by simp
    then show ?thesis
      using Cons.IH[of "fs_effect a fs"] Cons.prems(2) in_rest by simp
  qed
qed



text \<open>The filesystem a run returns is the one its log produces.\<close>

lemma files_replay:
  "files (snd (DownloadUpgrade config v env (start fs))) =
     replay fs (trace (snd (DownloadUpgrade config v env (start fs))))"
proof -
  obtain r w' where run: "DownloadUpgrade config v env (start fs) = (r, w')"
    by (cases "DownloadUpgrade config v env (start fs)")
  from run show ?thesis
  proof (cases rule: DownloadUpgrade_paths)
    case (transport_failed e)
    then show ?thesis using run by (simp add: replay_append replay_before_response)
  next
    case (bad_status resp)
    then show ?thesis using run by (simp add: replay_append replay_before_response)
  next
    case (copy_failed resp tr e)
    then show ?thesis using run
      by (simp add: replay_append replay_before_response replay_copy_calls[of tr "partialFilename config v"])
  next
    case (close_failed resp tr e)
    then show ?thesis using run
      by (simp add: replay_append replay_before_response replay_copy_calls[of tr "partialFilename config v"])
  next
    case (rename_failed resp tr e)
    then show ?thesis using run
      by (simp add: replay_append replay_before_response replay_copy_calls[of tr "partialFilename config v"])
  next
    case (published resp tr)
    then show ?thesis using run
      by (simp add: replay_append replay_before_response replay_copy_calls[of tr "partialFilename config v"])
  qed (use run in \<open>simp_all add: open_effect_contents\<close>)
qed

text \<open>In the log of a run the only open is that of the Partial File with the flags of
  line 61, every write is to the Partial File, and the only rename is that of the
  Partial File to the final path; a run that returns an error has no successful rename.\<close>

lemma calls_of_run:
  assumes "a \<in> set (trace (snd (DownloadUpgrade config v env (start fs))))"
  shows "(\<forall>p flags perm res. a = os_OpenFile p flags perm res \<longrightarrow>
            p = partialFilename config v \<and> flags = open_flags) \<and>
         (\<forall>p bs. a = file_Write p bs \<longrightarrow> p = partialFilename config v) \<and>
         (\<forall>src dst res. a = os_Rename src dst res \<longrightarrow>
            src = partialFilename config v \<and> dst = UpgradeDownloadFilename config \<and>
            (res = None \<longrightarrow> fst (DownloadUpgrade config v env (start fs)) = None))"
proof -
  obtain r w' where run: "DownloadUpgrade config v env (start fs) = (r, w')"
    by (cases "DownloadUpgrade config v env (start fs)")
  have mem: "a \<in> set (trace w')" using assms run by simp
  have copy: "(\<exists>c. a = Body_Read c) \<or> (\<exists>c. a = file_Write (partialFilename config v) c)"
    if "\<forall>a\<in>set tr. is_copy_call (partialFilename config v) a" "a \<in> set tr" for tr
    using that copy_call_cases by blast
  from run show ?thesis
  proof (cases rule: DownloadUpgrade_paths)
    case (copy_failed resp tr e)
    then show ?thesis using mem run copy[of tr] by (auto simp: calls_before_response_def)
  next
    case (close_failed resp tr e)
    then show ?thesis using mem run copy[of tr] by (auto simp: calls_before_response_def)
  next
    case (rename_failed resp tr e)
    then show ?thesis using mem run copy[of tr] by (auto simp: calls_before_response_def)
  next
    case (published resp tr)
    then show ?thesis using mem run copy[of tr] by (auto simp: calls_before_response_def)
  qed (use mem run in \<open>auto simp: calls_before_response_def\<close>)
qed


text \<open>
  C6. Take an invocation that returns an error, whichever call the error comes from, and
  any point of its run at which the Partial File exists, with bytes \<open>c\<close> (the start of
  the run, if the file was there before; any later point otherwise). In every filesystem
  state from that point on, and so in the one at return, the Partial File exists and its
  bytes begin with \<open>c\<close>: it is never removed and never truncated, bytes are only added
  after \<open>c\<close>. A later invocation with the same configuration and version, in whatever
  environment, sends a request whose range starts at the length the file has at return.
\<close>

theorem failure_keeps_partial_file:
  assumes "fst (DownloadUpgrade config v env (start fs)) = Some e"
    and "trace (snd (DownloadUpgrade config v env (start fs))) = before @ after"
    and "replay fs before (partialFilename config v) = Some c"
  shows "(\<forall>s\<in>set (states (replay fs before) after).
            \<exists>c'. s (partialFilename config v) = Some (c @ c')) \<and>
         (\<exists>c'. files (snd (DownloadUpgrade config v env (start fs))) (partialFilename config v) =
                  Some (c @ c') \<and>
               (\<forall>env' pre req post.
                  trace (snd (DownloadUpgrade config v env'
                    (start (files (snd (DownloadUpgrade config v env (start fs))))))) =
                    pre @ httpClient_Do req # post \<longrightarrow>
                  req = range_request config (length (c @ c'))))"
proof -
  let ?p = "partialFilename config v"
  let ?run = "DownloadUpgrade config v env (start fs)"
  let ?P = "\<lambda>s::filesystem. \<exists>c'. s ?p = Some (c @ c')"
  have init: "?P (replay fs before)" using assms(3) by simp
  have step: "?P (fs_effect a s)" if a: "a \<in> set after" and s: "?P s" for a s
  proof -
    from s obtain c' where c': "s ?p = Some (c @ c')" by blast
    from a assms(2) have "a \<in> set (trace (snd ?run))" by simp
    note calls = calls_of_run[OF this]
    show ?thesis
    proof (cases a)
      case (os_OpenFile q flags perm res)
      with calls have "q = ?p" "flags = open_flags" by simp_all
      with os_OpenFile c' show ?thesis
        by (cases res) (simp_all add: open_effect_creates)
    next
      case (file_Write q bs)
      with calls have "q = ?p" by simp
      with file_Write c' show ?thesis
        by (simp add: append_file_def)
    next
      case (os_Rename src dst res)
      with calls assms(1) have "res \<noteq> None" by auto
      with os_Rename c' show ?thesis by auto
    qed (use c' in simp_all)
  qed
  have all: "?P s" if "s \<in> set (states (replay fs before) after)" for s
    using init step that by (rule states_invariant[where P = ?P])
  have "files (snd ?run) = last (states (replay fs before) after)"
    by (simp only: files_replay assms(2) replay_append last_states)
  then have "files (snd ?run) \<in> set (states (replay fs before) after)"
    using last_in_set[OF states_ne, of "replay fs before" after] by simp
  from all[OF this] obtain c' where c': "files (snd ?run) ?p = Some (c @ c')" by blast
  have later: "req = range_request config (length (c @ c'))"
    if "trace (snd (DownloadUpgrade config v env' (start (files (snd ?run))))) =
          pre @ httpClient_Do req # post" for env' pre req post
    using request_of_run[OF that] c' by (simp add: file_size_def)
  show ?thesis
    using all c' later by blast
qed

theorem failure_keeps_partial_file_witness:
  "fst (DownloadUpgrade ex_config ''7'' ex_reset (start ex_partial)) =
     Some (ContextError (External ''reset'')) \<and>
   trace (snd (DownloadUpgrade ex_config ''7'' ex_reset (start ex_partial))) =
     (ex_calls_before_request @ [httpClient_Do ex_request, Body_Read [3], file_Write ''up.7.part'' [3]]) @
     [Body_Read [], Body_Close, file_Close None] \<and>
   replay ex_partial
     (ex_calls_before_request @ [httpClient_Do ex_request, Body_Read [3], file_Write ''up.7.part'' [3]])
     (partialFilename ex_config ''7'') = Some [1, 2, 3] \<and>
   files (snd (DownloadUpgrade ex_config ''7'' ex_reset (start ex_partial))) ''up.7.part'' =
     Some ([1, 2, 3] @ []) \<and>
   trace (snd (DownloadUpgrade ex_config ''7'' (ex_env ex_rest)
      (start (files (snd (DownloadUpgrade ex_config ''7'' ex_reset (start ex_partial))))))) ! 5 =
     httpClient_Do \<lparr>Method = ''GET'', URL = ''url'', Header = [(''Range'', ''bytes=3-'')]\<rparr>"
proof -
  let ?run = "DownloadUpgrade ex_config ''7'' ex_reset (start ex_partial)"
  let ?before = "ex_calls_before_request @ [httpClient_Do ex_request, Body_Read [3], file_Write ''up.7.part'' [3]]"
  have h1: "fst ?run = Some (ContextError (External ''reset''))"
    by (simp add: ex_defs ex_log_defs ex_reset_def run_defs)
  have h2: "trace (snd ?run) = ?before @ [Body_Read [], Body_Close, file_Close None]"
    by (simp add: ex_defs ex_log_defs ex_reset_def run_defs show_nat_digit digit_char_def)
  have p: "partialFilename ex_config ''7'' = ''up.7.part''"
    by (simp add: partialFilename_def ex_defs)
  have h3: "replay ex_partial ?before (partialFilename ex_config ''7'') = Some [1, 2, 3]"
    by (simp add: p ex_log_defs open_effect_def append_file_def)
  have f: "files (snd ?run) ''up.7.part'' = Some [1, 2, 3]"
    by (simp add: ex_defs ex_log_defs ex_reset_def run_defs)
  note inst = failure_keeps_partial_file[where config = ex_config and v = "''7''" and env = ex_reset
      and fs = ex_partial and e = "ContextError (External ''reset'')" and c = "[1, 2, 3]"
      and before = ?before and after = "[Body_Read [], Body_Close, file_Close None]", OF h1 h2 h3]
  from inst obtain c' where c': "files (snd ?run) ''up.7.part'' = Some ([1, 2, 3] @ c')"
    and later: "\<And>env' pre req post.
        trace (snd (DownloadUpgrade ex_config ''7'' env' (start (files (snd ?run))))) =
          pre @ httpClient_Do req # post \<Longrightarrow>
        req = range_request ex_config (length ([1, 2, 3::byte] @ c'))"
    unfolding p by blast
  from c' f have c0: "c' = []" by simp
  have again: "trace (snd (DownloadUpgrade ex_config ''7'' (ex_env ex_rest) (start (files (snd ?run))))) =
      take 5 (trace (snd (DownloadUpgrade ex_config ''7'' (ex_env ex_rest) (start (files (snd ?run)))))) @
      httpClient_Do (range_request ex_config 3) #
      drop 6 (trace (snd (DownloadUpgrade ex_config ''7'' (ex_env ex_rest) (start (files (snd ?run))))))"
    by (simp add: ex_defs ex_log_defs ex_reset_def run_defs show_nat_digit digit_char_def)
  have "trace (snd (DownloadUpgrade ex_config ''7'' (ex_env ex_rest) (start (files (snd ?run))))) ! 5 =
      httpClient_Do (range_request ex_config 3)"
    by (simp add: ex_defs ex_log_defs ex_reset_def run_defs show_nat_digit digit_char_def)
  then show ?thesis
    using h1 h2 h3 f later[OF again]
    by (simp add: c0 range_request_def range_header_def show_nat_digit digit_char_def ex_config_def)
qed

lemma notices_Nil [simp]: "notices [] = []"
  by (simp add: notices_def)

lemma notices_Cons [simp]: "notices (a # as) = (if is_notice a then a # notices as else notices as)"
  by (simp add: notices_def)

lemma notices_append [simp]: "notices (as @ bs) = notices as @ notices bs"
  by (simp add: notices_def)


lemma notices_before_response [simp]: "notices (calls_before_response config v fs) = []"
  by (simp add: calls_before_response_def)




lemma io_Copy_empty:
  "concat cs = [] \<Longrightarrow>
   io_Copy wrs p cs rerr written w =
     (written, rerr, \<lparr>files = files w, trace = trace w @ map Body_Read cs @ [Body_Read []]\<rparr>)"
proof (induction cs arbitrary: w)
  case Nil
  show ?case by (simp add: perform_def)
next
  case (Cons c cs)
  then have c: "c = []" and rest: "concat cs = []" by simp_all
  show ?case
    using Cons.IH[OF rest, of "perform (Body_Read c) w"] c by (simp add: perform_def)
qed

text \<open>
  A 416 response whose body is empty (every read delivers no bytes and the reads end with
  \<open>io.EOF\<close>): the calls after the request are the reads of the body, the byte-count
  notice reporting 0, the close of the file and, when the close succeeds, the rename.
  There is no write, and no byte is added to the Partial File.
\<close>

lemma empty_416_finalizes:
  assumes "fs (UpgradeDownloadFilename config) = None"
    and "MakeTunneledHttpClient_err env = None" and "OpenFile_err env = None"
    and "Stat_err env = None" and "NewRequest_err env = None"
    and "Do_result env = Inr resp" and "StatusCode resp = 416"
    and "concat (chunks (Body resp)) = []" and "read_err (Body resp) = None"
  shows "trace (snd (DownloadUpgrade config v env (start fs))) =
           calls_before_response config v fs @ map Body_Read (chunks (Body resp)) @
           [Body_Read [], NoticeInfo downloaded_bytes_format [0], file_Close (Close_err env)] @
           (if Close_err env = None
            then os_Rename (partialFilename config v) (UpgradeDownloadFilename config) (Rename_err env) #
                 (if Rename_err env = None
                  then [NoticeClientUpgradeDownloaded (UpgradeDownloadFilename config)] else [])
            else []) @
           [Body_Close, file_Close (Some ErrClosed)] \<and>
         written_bytes (trace (snd (DownloadUpgrade config v env (start fs)))) = []"
proof -
  have no_bytes: "written_bytes (map Body_Read cs) = []" for cs
    by (induction cs) simp_all
  have log: "trace (snd (DownloadUpgrade config v env (start fs))) =
           calls_before_response config v fs @ map Body_Read (chunks (Body resp)) @
           [Body_Read [], NoticeInfo downloaded_bytes_format [0], file_Close (Close_err env)] @
           (if Close_err env = None
            then os_Rename (partialFilename config v) (UpgradeDownloadFilename config) (Rename_err env) #
                 (if Rename_err env = None
                  then [NoticeClientUpgradeDownloaded (UpgradeDownloadFilename config)] else [])
            else []) @
           [Body_Close, file_Close (Some ErrClosed)]"
    using assms
    by (simp add: DownloadUpgrade_def request_and_copy_def copy_and_publish_def Let_def
          io_Copy_empty StatusPartialContent_def StatusRequestedRangeNotSatisfiable_def
          calls_before_response_def open_effect_contents file_size_contents
          split: option.splits)
  show ?thesis
    unfolding log by (simp add: written_bytes_append no_bytes calls_before_response_def)
qed

lemma empty_416_finalizes_example:
  "ex_partial (UpgradeDownloadFilename ex_config) = None \<and>
   MakeTunneledHttpClient_err (ex_env ex_416_empty) = None \<and> OpenFile_err (ex_env ex_416_empty) = None \<and>
   Stat_err (ex_env ex_416_empty) = None \<and> NewRequest_err (ex_env ex_416_empty) = None \<and>
   Do_result (ex_env ex_416_empty) = Inr ex_416_empty \<and> StatusCode ex_416_empty = 416 \<and>
   concat (chunks (Body ex_416_empty)) = [] \<and> read_err (Body ex_416_empty) = None \<and>
   trace (snd (DownloadUpgrade ex_config ''7'' (ex_env ex_416_empty) (start ex_partial))) =
     ex_calls_before_request @
     [httpClient_Do ex_request, Body_Read [], NoticeInfo ''client upgrade downloaded bytes: %d'' [0],
      file_Close None, os_Rename ''up.7.part'' ''up'' None, NoticeClientUpgradeDownloaded ''up'',
      Body_Close, file_Close (Some ErrClosed)]"
proof -
  have h1: "ex_partial (UpgradeDownloadFilename ex_config) = None"
    and h2: "MakeTunneledHttpClient_err (ex_env ex_416_empty) = None"
    and h3: "OpenFile_err (ex_env ex_416_empty) = None"
    and h4: "Stat_err (ex_env ex_416_empty) = None"
    and h5: "NewRequest_err (ex_env ex_416_empty) = None"
    and h6: "Do_result (ex_env ex_416_empty) = Inr ex_416_empty"
    and h7: "StatusCode ex_416_empty = 416"
    and h8: "concat (chunks (Body ex_416_empty)) = []"
    and h9: "read_err (Body ex_416_empty) = None"
    by (simp_all add: ex_defs ex_log_defs ex_416_empty_def)
  have c: "Close_err (ex_env ex_416_empty) = None" and r: "Rename_err (ex_env ex_416_empty) = None"
    and b: "chunks (Body ex_416_empty) = []"
    by (simp_all add: ex_defs ex_416_empty_def)
  have names: "UpgradeDownloadFilename ex_config = ''up''" "partialFilename ex_config ''7'' = ''up.7.part''"
    by (simp_all add: partialFilename_def ex_config_def)
  have pre: "calls_before_response ex_config ''7'' ex_partial =
      ex_calls_before_request @ [httpClient_Do ex_request]"
    by (simp add: calls_before_response_def ex_defs ex_log_defs partialFilename_def open_flags_def
          range_request_def range_header_def file_size_def show_nat_digit digit_char_def)
  show ?thesis
    using h1 h2 h3 h4 h5 h6 h7 h8 h9
      empty_416_finalizes[where config = ex_config and v = "''7''" and env = "ex_env ex_416_empty"
        and fs = ex_partial and resp = ex_416_empty, OF h1 h2 h3 h4 h5 h6 h7 h8 h9]
    by (simp add: c r b pre downloaded_bytes_format_def names)
qed

text \<open>
  C1. The comment of lines 80 to 82 takes a 416 to mean that the Partial File already
  holds the whole resource, so that nothing is left to copy and the count is 0. Line 94
  nevertheless copies the body of whichever response passed the guard of lines 83 to 85.
  With a Partial File of two bytes and a 416 response that carries a body of three
  bytes, the run succeeds, writes the three bytes of the body to the Partial File,
  reports a count of 3, and the file it publishes at the final path ends with them.
\<close>

theorem body_of_416_is_copied:
  "Do_result (ex_env ex_416_with_body) = Inr ex_416_with_body \<and>
   StatusCode ex_416_with_body = 416 \<and>
   fst (DownloadUpgrade ex_config ''7'' (ex_env ex_416_with_body) (start ex_partial)) = None \<and>
   file_Write ''up.7.part'' [9, 9, 9] \<in>
     set (trace (snd (DownloadUpgrade ex_config ''7'' (ex_env ex_416_with_body) (start ex_partial)))) \<and>
   notices (trace (snd (DownloadUpgrade ex_config ''7'' (ex_env ex_416_with_body) (start ex_partial)))) =
     [NoticeInfo ''client upgrade downloaded bytes: %d'' [3], NoticeClientUpgradeDownloaded ''up''] \<and>
   files (snd (DownloadUpgrade ex_config ''7'' (ex_env ex_416_with_body) (start ex_partial))) ''up'' =
     Some [1, 2, 9, 9, 9]"
  by (simp add: ex_defs ex_log_defs ex_416_with_body_def run_defs show_nat_digit digit_char_def)






end
